theory Spec2Isabelle
  imports Complex_Main "HOL-Library.AList"
begin

section \<open>Python values, exceptions and the tabular buffer\<close>

text \<open>
  Modelled from the spec: the class \<open>CustomException\<close> of
  \<^verbatim>\<open>churn_project/exception.py\<close>, which is not among the sources. The spec describes it
  as "a single uniform error kind carrying the original cause"; the module raises it as
  \<^verbatim>\<open>CustomException(e, sys)\<close>. It is taken to derive from \<^verbatim>\<open>Exception\<close> and not
  from \<^verbatim>\<open>KeyError\<close>. The other constructors are the built-in exceptions the module can
  meet; the texts of the messages are kept in ASCII.
\<close>

datatype exn =
    KeyError string
  | TypeError string
  | ValueError string
  | OSError string
  | CustomException exn

text \<open>
  A cell of a pandas column: a text, an integer, a float64, the missing value, or a
  Python list of integers (the cells of \<^verbatim>\<open>usage_last_6m\<close>). A float64 is modelled by
  the real number it stands for: rounding is not modelled.
\<close>

datatype cell = StrV string | IntV int | FloatV real | NaN | ListV "int list"

text \<open>
  A DataFrame: the length of its index (\<^verbatim>\<open>len(df)\<close>) and its columns in order.
  pandas keeps every column as long as the index; \<open>wf_df\<close> states that, and that the
  column labels are unique (\<^verbatim>\<open>df['Churn']\<close> is then one column).
\<close>

record dataframe =
  index_len :: nat
  cols :: "(string \<times> cell list) list"

definition wf_df :: "dataframe \<Rightarrow> bool" where
  "wf_df d \<longleftrightarrow>
     distinct (map fst (cols d)) \<and> list_all (\<lambda>c. length (snd c) = index_len d) (cols d)"

text \<open>\<^verbatim>\<open>df[name]\<close>: the column, or \<^verbatim>\<open>KeyError\<close>.\<close>

definition getitem :: "dataframe \<Rightarrow> string \<Rightarrow> exn + cell list" where
  "getitem d name =
     (case map_of (cols d) name of
        None \<Rightarrow> Inl (KeyError name)
      | Some vs \<Rightarrow> Inr vs)"

text \<open>
  \<^verbatim>\<open>df[name] = values\<close>: an existing column is replaced where it stands, a new one is
  appended. pandas refuses values whose length is not the length of the index; every
  assignment of the module builds its values with that length.
\<close>

definition setitem :: "dataframe \<Rightarrow> string \<Rightarrow> cell list \<Rightarrow> exn + dataframe" where
  "setitem d name vs =
     (if length vs = index_len d
      then Inr (d\<lparr>cols := AList.update name vs (cols d)\<rparr>)
      else Inl (ValueError ''Length of values does not match length of index''))"

section \<open>Strings and paths\<close>

text \<open>\<^verbatim>\<open>str.lower\<close> on ASCII text.\<close>

definition lower_char :: "char \<Rightarrow> char" where
  "lower_char c =
     (case map_of (zip ''ABCDEFGHIJKLMNOPQRSTUVWXYZ'' ''abcdefghijklmnopqrstuvwxyz'') c of
        Some l \<Rightarrow> l
      | None \<Rightarrow> c)"

definition lower :: "string \<Rightarrow> string" where
  "lower s = map lower_char s"

text \<open>The extension as the messages show it, between single quotes.\<close>

definition quoted :: "string \<Rightarrow> string" where
  "quoted s = CHR 0x27 # s @ [CHR 0x27]"

text \<open>\<^verbatim>\<open>p.rfind(c)\<close>: the index of the last occurrence of \<open>c\<close>, or -1.\<close>

fun rfind_from :: "string \<Rightarrow> char \<Rightarrow> int \<Rightarrow> int \<Rightarrow> int" where
  "rfind_from [] c i found = found"
| "rfind_from (x # xs) c i found = rfind_from xs c (i + 1) (if x = c then i else found)"

definition rfind :: "string \<Rightarrow> char \<Rightarrow> int" where
  "rfind p c = rfind_from p c 0 (- 1)"

text \<open>
  \<^verbatim>\<open>os.path.splitext\<close> (POSIX): the extension starts at the last dot of the last path
  component, unless that component has only dots before it. The loop of the library
  function returns the split at the first character that is not a dot;
  \<open>splitext_loop\<close> tells whether it does.
\<close>

function splitext_loop :: "string \<Rightarrow> nat \<Rightarrow> nat \<Rightarrow> bool" where
  "splitext_loop p filenameIndex dotIndex =
     (if filenameIndex < dotIndex
      then (if p ! filenameIndex \<noteq> CHR ''.'' then True
            else splitext_loop p (filenameIndex + 1) dotIndex)
      else False)"
  by pat_completeness auto
termination
  by (relation "measure (\<lambda>(p, i, d). d - i)") auto

definition splitext :: "string \<Rightarrow> string \<times> string" where
  "splitext p =
     (let sepIndex = rfind p CHR ''/'';
          dotIndex = rfind p CHR ''.''
      in if dotIndex > sepIndex \<and> splitext_loop p (nat (sepIndex + 1)) (nat dotIndex)
         then (take (nat dotIndex) p, drop (nat dotIndex) p)
         else (p, []))"

text \<open>\<^verbatim>\<open>os.path.dirname\<close> (POSIX).\<close>

definition rstrip :: "string \<Rightarrow> char \<Rightarrow> string" where
  "rstrip s c = rev (dropWhile (\<lambda>x. x = c) (rev s))"

definition dirname :: "string \<Rightarrow> string" where
  "dirname p =
     (let i = nat (rfind p CHR ''/'' + 1);
          head = take i p
      in if head \<noteq> [] \<and> head \<noteq> replicate (length head) CHR ''/''
         then rstrip head CHR ''/'' else head)"

section \<open>The world: object store, random generator, file system calls\<close>

text \<open>
  The process-wide generator of \<^verbatim>\<open>numpy.random\<close>. Its algorithm is not modelled: the
  generator is the sequence \<open>raw\<close> of the outcomes it will give and the position
  reached. A Poisson draw is any natural number; \<^verbatim>\<open>randint(lo, hi)\<close> is any integer of
  \<open>[lo, hi)\<close>. A statement proved for every \<open>raw\<close> holds for the seeded generator.
\<close>

record rng =
  raw :: "nat \<Rightarrow> nat"
  pos :: nat

definition draw :: "nat \<Rightarrow> rng \<Rightarrow> nat list \<times> rng" where
  "draw n g = (map (raw g) [pos g..<pos g + n], g\<lparr>pos := pos g + n\<rparr>)"

definition poisson :: "real \<Rightarrow> nat \<Rightarrow> rng \<Rightarrow> int list \<times> rng" where
  "poisson lam n g = (case draw n g of (rs, g') \<Rightarrow> (map int rs, g'))"

definition randint :: "int \<Rightarrow> int \<Rightarrow> nat \<Rightarrow> rng \<Rightarrow> int list \<times> rng" where
  "randint low high n g =
     (case draw n g of (rs, g') \<Rightarrow> (map (\<lambda>r. low + int r mod (high - low)) rs, g'))"

text \<open>
  What pandas and the operating system answer when the module calls them: a reader
  gives a table or raises, a writer and \<^verbatim>\<open>os.makedirs\<close> succeed or raise.
\<close>

record sistema =
  read_csv :: "string \<Rightarrow> exn + dataframe"
  read_excel :: "string \<Rightarrow> exn + dataframe"
  read_parquet :: "string \<Rightarrow> exn + dataframe"
  to_csv :: "dataframe \<Rightarrow> string \<Rightarrow> exn option"
  to_parquet :: "dataframe \<Rightarrow> string \<Rightarrow> exn option"
  makedirs :: "string \<Rightarrow> exn option"

text \<open>Every call that reaches the file system is recorded, in order.\<close>

datatype io_event =
    ReadCSV string
  | ReadExcel string
  | ReadParquet string
  | MakeDirs string
  | ToCSV string dataframe
  | ToParquet string dataframe

text \<open>
  The store. A DataFrame object is an address of \<open>frames\<close>, a pipeline object an
  address of \<open>pipelines\<close>, whose value is the object's field \<^verbatim>\<open>df\<close>. Addresses below
  \<open>next_frame\<close> and \<open>next_obj\<close> are the allocated ones.
\<close>

record world =
  frames :: "nat \<Rightarrow> dataframe"
  next_frame :: nat
  pipelines :: "nat \<Rightarrow> nat"
  next_obj :: nat
  gen :: rng
  io :: "io_event list"

definition alloc_frame :: "dataframe \<Rightarrow> world \<Rightarrow> nat \<times> world" where
  "alloc_frame d w =
     (next_frame w, w\<lparr>frames := (frames w)(next_frame w := d), next_frame := next_frame w + 1\<rparr>)"

definition alloc_obj :: "nat \<Rightarrow> world \<Rightarrow> nat \<times> world" where
  "alloc_obj r w =
     (next_obj w, w\<lparr>pipelines := (pipelines w)(next_obj w := r), next_obj := next_obj w + 1\<rparr>)"

section \<open>Format strategies\<close>

datatype leitor = LeitorCSVStrategy | LeitorXLSXStrategy | LeitorParquetStrategy

datatype salvador = SalvadorCSVStrategy | SalvadorParquetStrategy

definition estrategia_leitura :: "string \<rightharpoonup> leitor" where
  "estrategia_leitura =
     [''.csv'' \<mapsto> LeitorCSVStrategy, ''.xlsx'' \<mapsto> LeitorXLSXStrategy,
      ''.parquet'' \<mapsto> LeitorParquetStrategy]"

definition estrategias_salvamento :: "string \<rightharpoonup> salvador" where
  "estrategias_salvamento =
     [''.csv'' \<mapsto> SalvadorCSVStrategy, ''.parquet'' \<mapsto> SalvadorParquetStrategy]"

text \<open>
  \<^verbatim>\<open>ILeitorStrategy.ler\<close>: the pandas reader is called; its table becomes a new
  DataFrame object, its exception is wrapped.
\<close>

definition ler :: "sistema \<Rightarrow> leitor \<Rightarrow> string \<Rightarrow> world \<Rightarrow> (exn + nat) \<times> world" where
  "ler s estrategia caminho_arquivo w =
     (let (answer, event) =
            (case estrategia of
               LeitorCSVStrategy \<Rightarrow> (read_csv s caminho_arquivo, ReadCSV caminho_arquivo)
             | LeitorXLSXStrategy \<Rightarrow> (read_excel s caminho_arquivo, ReadExcel caminho_arquivo)
             | LeitorParquetStrategy \<Rightarrow>
                 (read_parquet s caminho_arquivo, ReadParquet caminho_arquivo));
          w1 = w\<lparr>io := io w @ [event]\<rparr>
      in case answer of
           Inl e \<Rightarrow> (Inl (CustomException e), w1)
         | Inr d \<Rightarrow> (case alloc_frame d w1 of (r, w2) \<Rightarrow> (Inr r, w2)))"

text \<open>\<^verbatim>\<open>ISalvadorStrategy.salvar\<close>: the pandas writer is called; its exception is wrapped.\<close>

definition salvar_estrategia ::
  "sistema \<Rightarrow> salvador \<Rightarrow> dataframe \<Rightarrow> string \<Rightarrow> world \<Rightarrow> (exn + unit) \<times> world" where
  "salvar_estrategia s estrategia df caminho_saida w =
     (let (answer, event) =
            (case estrategia of
               SalvadorCSVStrategy \<Rightarrow> (to_csv s df caminho_saida, ToCSV caminho_saida df)
             | SalvadorParquetStrategy \<Rightarrow>
                 (to_parquet s df caminho_saida, ToParquet caminho_saida df));
          w1 = w\<lparr>io := io w @ [event]\<rparr>
      in case answer of
           Some e \<Rightarrow> (Inl (CustomException e), w1)
         | None \<Rightarrow> (Inr (), w1))"

section \<open>EnriquecimentoDataset\<close>

text \<open>What a caller can pass to the constructor: a DataFrame object or something else.\<close>

datatype pyobj = DataFrameObj nat | OtherObj

text \<open>
  The constructor: a value that is not a DataFrame is refused; otherwise the new
  object's \<^verbatim>\<open>df\<close> is a new DataFrame object holding \<^verbatim>\<open>dataframe.copy()\<close>.
\<close>

definition init :: "pyobj \<Rightarrow> world \<Rightarrow> (exn + nat) \<times> world" where
  "init dataframe w =
     (case dataframe of
        OtherObj \<Rightarrow>
          (Inl (CustomException (TypeError ''A entrada deve ser um dataframe pandas'')), w)
      | DataFrameObj r \<Rightarrow>
          (case alloc_frame (frames w r) w of
             (copy, w1) \<Rightarrow> (case alloc_obj copy w1 of (self, w2) \<Rightarrow> (Inr self, w2))))"

definition from_file :: "sistema \<Rightarrow> string \<Rightarrow> world \<Rightarrow> (exn + nat) \<times> world" where
  "from_file s caminho_arquivo w =
     (let extensao = lower (snd (splitext caminho_arquivo))
      in case estrategia_leitura extensao of
           None \<Rightarrow>
             (Inl (ValueError (''Formato de arquivo '' @ quoted extensao
                                @ '' nao e suportado.'')), w)
         | Some estrategia_classe \<Rightarrow>
             (case ler s estrategia_classe caminho_arquivo w of
                (Inl e, w1) \<Rightarrow> (Inl (CustomException e), w1)
              | (Inr dataframe_carregado, w1) \<Rightarrow>
                  (case init (DataFrameObj dataframe_carregado) w1 of
                     (Inl e, w2) \<Rightarrow> (Inl (CustomException e), w2)
                   | (Inr self, w2) \<Rightarrow> (Inr self, w2))))"

definition get_df :: "nat \<Rightarrow> world \<Rightarrow> nat" where
  "get_df self w = pipelines w self"

text \<open>The table \<^verbatim>\<open>self.df\<close> holds.\<close>

definition buffer :: "nat \<Rightarrow> world \<Rightarrow> dataframe" where
  "buffer self w = frames w (get_df self w)"

text \<open>
  \<^verbatim>\<open>salvar\<close>: first the parent directory is created when the path names one (outside
  the \<^verbatim>\<open>try\<close>: an exception of \<^verbatim>\<open>os.makedirs\<close> leaves as it is), then the writer
  is looked up by the lower-cased extension. The message shows the extension as written.
\<close>

definition salvar :: "sistema \<Rightarrow> nat \<Rightarrow> string \<Rightarrow> world \<Rightarrow> (exn + unit) \<times> world" where
  "salvar s self caminho_saida w =
     (let diretorio_pai = dirname caminho_saida;
          w1 = (if diretorio_pai \<noteq> [] then w\<lparr>io := io w @ [MakeDirs diretorio_pai]\<rparr> else w)
      in case (if diretorio_pai \<noteq> [] then makedirs s diretorio_pai else None) of
           Some e \<Rightarrow> (Inl e, w1)
         | None \<Rightarrow>
             (let extensao = snd (splitext caminho_saida)
              in case estrategias_salvamento (lower extensao) of
                   None \<Rightarrow>
                     (Inl (ValueError (''Formato de arquivo para salvamento ''
                                        @ quoted extensao @ '' nao e suportado.'')), w1)
                 | Some estrategia_classe \<Rightarrow>
                     (case salvar_estrategia s estrategia_classe (frames w1 (pipelines w1 self))
                             caminho_saida w1 of
                        (Inl e, w2) \<Rightarrow> (Inl (CustomException e), w2)
                      | (Inr u, w2) \<Rightarrow> (Inr (), w2))))"

section \<open>EnriquecimentoDatasetTelco\<close>

text \<open>
  The three enrichment methods have one shape: a body that works on \<^verbatim>\<open>self.df\<close> and
  the generator, \<^verbatim>\<open>return self\<close> at its end, and any exception of the body wrapped in
  \<open>CustomException\<close>. What the body did before it failed stays done.
\<close>

definition try_return_self ::
  "(dataframe \<Rightarrow> rng \<Rightarrow> (exn + unit) \<times> dataframe \<times> rng) \<Rightarrow> nat \<Rightarrow> world
     \<Rightarrow> (exn + nat) \<times> world" where
  "try_return_self body self w =
     (case body (frames w (pipelines w self)) (gen w) of
        (res, d, g) \<Rightarrow>
          (case res of Inl e \<Rightarrow> Inl (CustomException e) | Inr u \<Rightarrow> Inr self,
           w\<lparr>frames := (frames w)(pipelines w self := d), gen := g\<rparr>))"

subsection \<open>preparar\_coluna\_churn\<close>

text \<open>
  \<^verbatim>\<open>Series.map(dict)\<close>: pandas looks every cell up among the keys. A list cannot be
  hashed and the lookup raises; any other cell that is not a key gives the missing
  value. The result is an integer column when every cell was found and a float column
  (with the missing values) otherwise.
\<close>

fun is_list :: "cell \<Rightarrow> bool" where
  "is_list (ListV xs) = True"
| "is_list v = False"

fun lookup_cell :: "(string \<rightharpoonup> int) \<Rightarrow> cell \<Rightarrow> int option" where
  "lookup_cell m (StrV s) = m s"
| "lookup_cell m v = None"

definition series_map :: "(string \<rightharpoonup> int) \<Rightarrow> cell list \<Rightarrow> exn + cell list" where
  "series_map m vs =
     (if list_ex is_list vs then Inl (TypeError ''unhashable type: list'')
      else (let found = map (lookup_cell m) vs
            in if list_all (\<lambda>x. x \<noteq> None) found
               then Inr (map (\<lambda>x. case x of Some k \<Rightarrow> IntV k | None \<Rightarrow> NaN) found)
               else Inr (map (\<lambda>x. case x of Some k \<Rightarrow> FloatV (of_int k) | None \<Rightarrow> NaN)
                           found)))"

definition yes_no :: "string \<rightharpoonup> int" where
  "yes_no = [''Yes'' \<mapsto> 1, ''No'' \<mapsto> 0]"

definition preparar_coluna_churn_body ::
  "dataframe \<Rightarrow> rng \<Rightarrow> (exn + unit) \<times> dataframe \<times> rng" where
  "preparar_coluna_churn_body d g =
     (case getitem d ''Churn'' of
        Inl e \<Rightarrow> (Inl e, d, g)
      | Inr churn \<Rightarrow>
          (case series_map yes_no churn of
             Inl e \<Rightarrow> (Inl e, d, g)
           | Inr vs \<Rightarrow>
               (case setitem d ''Churn'' vs of
                  Inl e \<Rightarrow> (Inl e, d, g)
                | Inr d1 \<Rightarrow> (Inr (), d1, g))))"

definition preparar_coluna_churn :: "nat \<Rightarrow> world \<Rightarrow> (exn + nat) \<times> world" where
  "preparar_coluna_churn = try_return_self preparar_coluna_churn_body"

subsection \<open>gerar\_features\_interacao\<close>

text \<open>\<^verbatim>\<open>value == 1\<close> on a cell.\<close>

fun eq_one :: "cell \<Rightarrow> bool" where
  "eq_one (IntV i) = (i = 1)"
| "eq_one (FloatV x) = (x = 1)"
| "eq_one v = False"

text \<open>
  \<^verbatim>\<open>np.where(cond, a, b)\<close> on three arrays of one length (numpy refuses shapes that do
  not fit; broadcasting an array of length one is not modelled).
\<close>

definition np_where :: "bool list \<Rightarrow> 'a list \<Rightarrow> 'a list \<Rightarrow> exn + 'a list" where
  "np_where c xs ys =
     (if length xs = length c \<and> length ys = length c
      then Inr (map (\<lambda>(b, x, y). if b then x else y) (zip c (zip xs ys)))
      else Inl (ValueError ''operands could not be broadcast together''))"

text \<open>
  One statement
  \<^verbatim>\<open>self.df[name] = np.where(self.df['Churn'] == 1, draw1(len(self.df)), draw2(len(self.df)))\<close>:
  the condition is evaluated first, then the two arrays are drawn in full, in that order.
\<close>

definition where_churn ::
  "string \<Rightarrow> (nat \<Rightarrow> rng \<Rightarrow> int list \<times> rng) \<Rightarrow> (nat \<Rightarrow> rng \<Rightarrow> int list \<times> rng)
     \<Rightarrow> dataframe \<Rightarrow> rng \<Rightarrow> (exn + dataframe) \<times> rng" where
  "where_churn name draw1 draw2 d g =
     (case getitem d ''Churn'' of
        Inl e \<Rightarrow> (Inl e, g)
      | Inr churn \<Rightarrow>
          (case draw1 (index_len d) g of
             (a, g1) \<Rightarrow>
               (case draw2 (index_len d) g1 of
                  (b, g2) \<Rightarrow>
                    (case np_where (map eq_one churn) a b of
                       Inl e \<Rightarrow> (Inl e, g2)
                     | Inr vs \<Rightarrow> (setitem d name (map IntV vs), g2)))))"

definition gerar_features_interacao_body ::
  "dataframe \<Rightarrow> rng \<Rightarrow> (exn + unit) \<times> dataframe \<times> rng" where
  "gerar_features_interacao_body d g =
     (case where_churn ''num_logins_last_30d'' (poisson 2) (poisson 10) d g of
        (Inl e, g1) \<Rightarrow> (Inl e, d, g1)
      | (Inr d1, g1) \<Rightarrow>
          (case where_churn ''support_tickets_last_90d'' (poisson 3) (poisson 1) d1 g1 of
             (Inl e, g2) \<Rightarrow> (Inl e, d1, g2)
           | (Inr d2, g2) \<Rightarrow>
               (case where_churn ''last_interaction_days_ago'' (randint 15 60) (randint 1 15)
                       d2 g2 of
                  (Inl e, g3) \<Rightarrow> (Inl e, d2, g3)
                | (Inr d3, g3) \<Rightarrow> (Inr (), d3, g3))))"

definition gerar_features_interacao :: "nat \<Rightarrow> world \<Rightarrow> (exn + nat) \<times> world" where
  "gerar_features_interacao = try_return_self gerar_features_interacao_body"

subsection \<open>gerar\_features\_uso\_recente\<close>

text \<open>\<^verbatim>\<open>np.linspace(start, stop, num)\<close> and \<^verbatim>\<open>np.ones(num)\<close>.\<close>

definition linspace :: "real \<Rightarrow> real \<Rightarrow> nat \<Rightarrow> real list" where
  "linspace start stop num =
     map (\<lambda>i. start + real i * ((stop - start) / real (num - 1))) [0..<num]"

definition ones :: "nat \<Rightarrow> real list" where
  "ones num = replicate num 1"

text \<open>\<^verbatim>\<open>astype(int)\<close> on a float: the fraction is cut off, towards zero.\<close>

definition astype_int :: "real \<Rightarrow> int" where
  "astype_int x = (if 0 \<le> x then \<lfloor>x\<rfloor> else \<lceil>x\<rceil>)"

definition generate_usage_series :: "cell \<Rightarrow> rng \<Rightarrow> int list \<times> rng" where
  "generate_usage_series churned g =
     (case poisson 10 6 g of
        (base, g1) \<Rightarrow>
          (let trend = (if eq_one churned then linspace 1 (3 / 10) 6 else ones 6)
           in (map (\<lambda>(b, t). astype_int (real_of_int b * t)) (zip base trend), g1)))"

text \<open>
  \<^verbatim>\<open>Series.apply\<close> calls the function on each cell in row order; here the function
  consumes the generator, so the generator is threaded through the rows.
\<close>

fun apply_gen :: "(cell \<Rightarrow> rng \<Rightarrow> 'a \<times> rng) \<Rightarrow> cell list \<Rightarrow> rng \<Rightarrow> 'a list \<times> rng" where
  "apply_gen f [] g = ([], g)"
| "apply_gen f (v # vs) g =
     (case f v g of (y, g1) \<Rightarrow> (case apply_gen f vs g1 of (ys, g2) \<Rightarrow> (y # ys, g2)))"

text \<open>\<^verbatim>\<open>Series.apply\<close> with a function that may raise: the first exception ends it.\<close>

fun series_apply :: "(cell \<Rightarrow> exn + cell) \<Rightarrow> cell list \<Rightarrow> exn + cell list" where
  "series_apply f [] = Inr []"
| "series_apply f (v # vs) =
     (case f v of
        Inl e \<Rightarrow> Inl e
      | Inr y \<Rightarrow> (case series_apply f vs of Inl e \<Rightarrow> Inl e | Inr ys \<Rightarrow> Inr (y # ys)))"

text \<open>
  The three functions applied to the cells of \<^verbatim>\<open>usage_last_6m\<close>.
  \<^verbatim>\<open>np.polyfit(range(6), x, 1)[0]\<close> is the slope of the least-squares line through
  the points \<open>(i, x\<^sub>i)\<close>; \<^verbatim>\<open>np.std\<close> is the population standard deviation;
  \<^verbatim>\<open>x[-3:]\<close> is the last three elements (all of them when there are fewer).
\<close>

definition polyfit_slope :: "nat \<Rightarrow> int list \<Rightarrow> real" where
  "polyfit_slope n x =
     (real n * (\<Sum>i\<leftarrow>[0..<n]. real i * real_of_int (x ! i))
        - (\<Sum>i\<leftarrow>[0..<n]. real i) * (\<Sum>i\<leftarrow>[0..<n]. real_of_int (x ! i)))
     / (real n * (\<Sum>i\<leftarrow>[0..<n]. real i * real i) - (\<Sum>i\<leftarrow>[0..<n]. real i) ^ 2)"

definition np_mean :: "int list \<Rightarrow> cell" where
  "np_mean xs =
     (if xs = [] then NaN else FloatV (real_of_int (sum_list xs) / real (length xs)))"

definition np_std :: "int list \<Rightarrow> cell" where
  "np_std xs =
     (if xs = [] then NaN
      else (let m = real_of_int (sum_list xs) / real (length xs)
            in FloatV (sqrt ((\<Sum>x\<leftarrow>xs. (real_of_int x - m) ^ 2) / real (length xs)))))"

fun trend_usage_fn :: "cell \<Rightarrow> exn + cell" where
  "trend_usage_fn (ListV x) =
     (if length x = 6 then Inr (FloatV (polyfit_slope 6 x))
      else Inl (TypeError ''expected x and y to have same length''))"
| "trend_usage_fn v = Inl (TypeError ''expected 1D or 2D array for y'')"

fun std_usage_fn :: "cell \<Rightarrow> exn + cell" where
  "std_usage_fn (ListV x) = Inr (np_std x)"
| "std_usage_fn (StrV s) = Inl (TypeError ''cannot perform reduce with flexible type'')"
| "std_usage_fn NaN = Inr NaN"
| "std_usage_fn v = Inr (FloatV 0)"

fun avg_usage_last_3m_fn :: "cell \<Rightarrow> exn + cell" where
  "avg_usage_last_3m_fn (ListV x) = Inr (np_mean (drop (length x - 3) x))"
| "avg_usage_last_3m_fn v = Inl (TypeError ''no mean of the last three of a scalar'')"

text \<open>One statement \<^verbatim>\<open>self.df[target] = self.df[source].apply(f)\<close>.\<close>

definition apply_column ::
  "string \<Rightarrow> string \<Rightarrow> (cell \<Rightarrow> exn + cell) \<Rightarrow> dataframe \<Rightarrow> exn + dataframe" where
  "apply_column target source f d =
     (case getitem d source of
        Inl e \<Rightarrow> Inl e
      | Inr col \<Rightarrow>
          (case series_apply f col of
             Inl e \<Rightarrow> Inl e
           | Inr vs \<Rightarrow> setitem d target vs))"

definition gerar_features_uso_recente_body ::
  "dataframe \<Rightarrow> rng \<Rightarrow> (exn + unit) \<times> dataframe \<times> rng" where
  "gerar_features_uso_recente_body d g =
     (case getitem d ''Churn'' of
        Inl e \<Rightarrow> (Inl e, d, g)
      | Inr churn \<Rightarrow>
          (case apply_gen generate_usage_series churn g of
             (series, g1) \<Rightarrow>
               (case setitem d ''usage_last_6m'' (map ListV series) of
                  Inl e \<Rightarrow> (Inl e, d, g1)
                | Inr d1 \<Rightarrow>
                    (case apply_column ''trend_usage'' ''usage_last_6m'' trend_usage_fn d1 of
                       Inl e \<Rightarrow> (Inl e, d1, g1)
                     | Inr d2 \<Rightarrow>
                         (case apply_column ''std_usage'' ''usage_last_6m'' std_usage_fn d2 of
                            Inl e \<Rightarrow> (Inl e, d2, g1)
                          | Inr d3 \<Rightarrow>
                              (case apply_column ''avg_usage_last_3m'' ''usage_last_6m''
                                      avg_usage_last_3m_fn d3 of
                                 Inl e \<Rightarrow> (Inl e, d3, g1)
                               | Inr d4 \<Rightarrow> (Inr (), d4, g1)))))))"

definition gerar_features_uso_recente :: "nat \<Rightarrow> world \<Rightarrow> (exn + nat) \<times> world" where
  "gerar_features_uso_recente = try_return_self gerar_features_uso_recente_body"

subsection \<open>aplicar\_enriquecimento\_padrao\<close>

text \<open>
  The chain \<^verbatim>\<open>self.preparar_coluna_churn().gerar_features_interacao().gerar_features_uso_recente()\<close>:
  each method is called on the object the previous one returned; an exception ends the
  chain and leaves unwrapped (the method has no \<^verbatim>\<open>try\<close>); then \<^verbatim>\<open>return self\<close>.
\<close>

definition aplicar_enriquecimento_padrao :: "nat \<Rightarrow> world \<Rightarrow> (exn + nat) \<times> world" where
  "aplicar_enriquecimento_padrao self w =
     (case preparar_coluna_churn self w of
        (Inl e, w1) \<Rightarrow> (Inl e, w1)
      | (Inr obj1, w1) \<Rightarrow>
          (case gerar_features_interacao obj1 w1 of
             (Inl e, w2) \<Rightarrow> (Inl e, w2)
           | (Inr obj2, w2) \<Rightarrow>
               (case gerar_features_uso_recente obj2 w2 of
                  (Inl e, w3) \<Rightarrow> (Inl e, w3)
                | (Inr obj3, w3) \<Rightarrow> (Inr self, w3))))"

text \<open>
  The spec's reading of the same method: the three steps called one after the other on
  the pipeline object, in the order 1, 2, 3, the caller keeping what the last one returns.
\<close>

definition passos_em_sequencia :: "nat \<Rightarrow> world \<Rightarrow> (exn + nat) \<times> world" where
  "passos_em_sequencia self w =
     (case preparar_coluna_churn self w of
        (Inl e, w1) \<Rightarrow> (Inl e, w1)
      | (Inr r1, w1) \<Rightarrow>
          (case gerar_features_interacao self w1 of
             (Inl e, w2) \<Rightarrow> (Inl e, w2)
           | (Inr r2, w2) \<Rightarrow> gerar_features_uso_recente self w2))"

text \<open>
  Any sequence of enrichment calls on one pipeline object, the caller going on after an
  exception.
\<close>

datatype passo = Preparar | Interacao | UsoRecente | Padrao

fun passo_run :: "passo \<Rightarrow> nat \<Rightarrow> world \<Rightarrow> (exn + nat) \<times> world" where
  "passo_run Preparar = preparar_coluna_churn"
| "passo_run Interacao = gerar_features_interacao"
| "passo_run UsoRecente = gerar_features_uso_recente"
| "passo_run Padrao = aplicar_enriquecimento_padrao"

fun passos_run :: "passo list \<Rightarrow> nat \<Rightarrow> world \<Rightarrow> world" where
  "passos_run [] self w = w"
| "passos_run (p # ps) self w = passos_run ps self (snd (passo_run p self w))"

section \<open>Example inputs\<close>

text \<open>
  A small customer table, a generator, an operating system in which every call
  succeeds, and a world in which the caller holds the table as DataFrame object 0 and
  pipeline object 0 owns DataFrame object 1, a copy of it.
\<close>

definition exemplo_df :: dataframe where
  "exemplo_df =
     \<lparr>index_len = 2,
      cols = [(''customerID'', [StrV ''7590-VHVEG'', StrV ''5575-GNVDE'']),
              (''Churn'', [StrV ''Yes'', StrV ''No''])]\<rparr>"

definition exemplo_gen :: rng where
  "exemplo_gen = \<lparr>raw = (\<lambda>i. 7 * i + 3), pos = 0\<rparr>"

definition exemplo_sistema :: sistema where
  "exemplo_sistema =
     \<lparr>read_csv = (\<lambda>p. Inr exemplo_df), read_excel = (\<lambda>p. Inr exemplo_df),
      read_parquet = (\<lambda>p. Inr exemplo_df), to_csv = (\<lambda>d p. None),
      to_parquet = (\<lambda>d p. None), makedirs = (\<lambda>p. None)\<rparr>"

definition exemplo_mundo :: world where
  "exemplo_mundo =
     \<lparr>frames = (\<lambda>r. exemplo_df), next_frame = 2, pipelines = (\<lambda>obj. 1), next_obj = 1,
      gen = exemplo_gen, io = []\<rparr>"

text \<open>
  A table whose \<^verbatim>\<open>Churn\<close> cell is a list, and one whose \<^verbatim>\<open>Churn\<close> column mixes a
  label, a number and another text; each in a world shaped like \<open>exemplo_mundo\<close>.
\<close>

definition lista_df :: dataframe where
  "lista_df = \<lparr>index_len = 1, cols = [(''Churn'', [ListV [1, 0]])]\<rparr>"

definition lista_mundo :: world where
  "lista_mundo =
     \<lparr>frames = (\<lambda>r. lista_df), next_frame = 2, pipelines = (\<lambda>obj. 1), next_obj = 1,
      gen = exemplo_gen, io = []\<rparr>"

definition misto_df :: dataframe where
  "misto_df = \<lparr>index_len = 3, cols = [(''Churn'', [StrV ''Yes'', IntV 1, StrV ''maybe''])]\<rparr>"

definition misto_mundo :: world where
  "misto_mundo =
     \<lparr>frames = (\<lambda>r. misto_df), next_frame = 2, pipelines = (\<lambda>obj. 1), next_obj = 1,
      gen = exemplo_gen, io = []\<rparr>"

text \<open>The example table after \<^verbatim>\<open>preparar_coluna_churn\<close>, in the same kind of world.\<close>

definition numerico_df :: dataframe where
  "numerico_df =
     \<lparr>index_len = 2,
      cols = [(''customerID'', [StrV ''7590-VHVEG'', StrV ''5575-GNVDE'']),
              (''Churn'', [IntV 1, IntV 0])]\<rparr>"

definition numerico_mundo :: world where
  "numerico_mundo =
     \<lparr>frames = (\<lambda>r. numerico_df), next_frame = 2, pipelines = (\<lambda>obj. 1), next_obj = 1,
      gen = exemplo_gen, io = []\<rparr>"

text \<open>
  An operating system in which \<^verbatim>\<open>os.makedirs\<close> fails (the parent of the output path
  is an existing regular file), everything else as in \<open>exemplo_sistema\<close>.
\<close>

definition bloqueado_sistema :: sistema where
  "bloqueado_sistema = exemplo_sistema\<lparr>makedirs := (\<lambda>p. Some (OSError ''File exists''))\<rparr>"

section \<open>Facts about the buffer, the generator and the wrapper\<close>

lemma getitem_setitem:
  "setitem d n vs = Inr d' \<Longrightarrow> getitem d' m = (if m = n then Inr vs else getitem d m)"
  by (auto simp: setitem_def getitem_def update_conv' split: if_splits)

lemma index_len_setitem: "setitem d n vs = Inr d' \<Longrightarrow> index_len d' = index_len d"
  by (auto simp: setitem_def split: if_splits)

lemma list_all_update:
  "list_all P al \<Longrightarrow> P (k, v) \<Longrightarrow> list_all P (AList.update k v al)"
  by (induction al) auto

lemma wf_df_setitem: "wf_df d \<Longrightarrow> setitem d n vs = Inr d' \<Longrightarrow> wf_df d'"
  by (auto simp: setitem_def wf_df_def distinct_update list_all_update split: if_splits)

lemma setitem_ok: "length vs = index_len d \<Longrightarrow> \<exists>d'. setitem d n vs = Inr d'"
  by (simp add: setitem_def)

lemma wf_df_getitem: "wf_df d \<Longrightarrow> getitem d n = Inr vs \<Longrightarrow> length vs = index_len d"
proof -
  assume wf: "wf_df d" and g: "getitem d n = Inr vs"
  from g have "map_of (cols d) n = Some vs"
    by (simp add: getitem_def split: option.splits)
  then have "(n, vs) \<in> set (cols d)" by (rule map_of_SomeD)
  with wf show ?thesis by (auto simp: wf_df_def list_all_iff)
qed

lemma length_randint: "randint lo hi n g = (xs, g') \<Longrightarrow> length xs = n"
  by (auto simp: randint_def draw_def split: prod.splits)

lemma randint_range:
  "lo < hi \<Longrightarrow> randint lo hi n g = (xs, g') \<Longrightarrow> i < n \<Longrightarrow> lo \<le> xs ! i \<and> xs ! i < hi"
proof -
  assume lt: "lo < hi" and r: "randint lo hi n g = (xs, g')" and i: "i < n"
  have m: "\<And>x::int. 0 \<le> x mod (hi - lo) \<and> x mod (hi - lo) < hi - lo"
    using lt by simp
  from r i have "xs ! i = lo + int (raw g (pos g + i)) mod (hi - lo)"
    by (auto simp: randint_def draw_def)
  with m[of "int (raw g (pos g + i))"] show ?thesis by linarith
qed

lemma lookup_yes_no:
  "lookup_cell yes_no v =
     (if v = StrV ''Yes'' then Some 1 else if v = StrV ''No'' then Some 0 else None)"
  by (cases v) (auto simp: yes_no_def)

lemma series_map_length: "series_map m vs = Inr new \<Longrightarrow> length new = length vs"
  by (auto simp: series_map_def Let_def split: if_splits)

lemma series_map_yes_no:
  assumes "set vs \<subseteq> {StrV ''Yes'', StrV ''No''}"
  shows "series_map yes_no vs = Inr (map (\<lambda>v. if v = StrV ''Yes'' then IntV 1 else IntV 0) vs)"
proof -
  have nl: "\<not> list_ex is_list vs"
    using assms by (auto simp: list_ex_iff)
  have all: "list_all (\<lambda>x. x \<noteq> None) (map (lookup_cell yes_no) vs)"
    using assms by (auto simp: list_all_iff lookup_yes_no)
  have "map (\<lambda>x. case x of Some k \<Rightarrow> IntV k | None \<Rightarrow> NaN) (map (lookup_cell yes_no) vs)
          = map (\<lambda>v. if v = StrV ''Yes'' then IntV 1 else IntV 0) vs"
    using assms by (auto simp: lookup_yes_no)
  with nl all show ?thesis
    by (simp add: series_map_def Let_def)
qed

lemma series_map_numeric:
  assumes "set vs \<subseteq> {IntV 0, IntV 1}"
  shows "series_map yes_no vs = Inr (replicate (length vs) NaN)"
proof -
  have nl: "\<not> list_ex is_list vs"
    using assms by (auto simp: list_ex_iff)
  have none: "map (lookup_cell yes_no) vs = replicate (length vs) None"
    using assms by (auto simp: map_replicate_const[symmetric] lookup_yes_no simp del: map_replicate_const intro!: map_cong) 
  show ?thesis
    using nl by (simp add: series_map_def Let_def none map_replicate_const)
qed

lemma series_map_scalars:
  assumes "\<not> list_ex is_list vs"
  shows "\<exists>new. series_map yes_no vs = Inr new \<and> length new = length vs \<and>
           (\<forall>i<length vs.
              (vs ! i = StrV ''Yes'' \<longrightarrow> new ! i = IntV 1 \<or> new ! i = FloatV 1) \<and>
              (vs ! i = StrV ''No'' \<longrightarrow> new ! i = IntV 0 \<or> new ! i = FloatV 0) \<and>
              (vs ! i \<noteq> StrV ''Yes'' \<and> vs ! i \<noteq> StrV ''No'' \<longrightarrow> new ! i = NaN))"
proof -
  have f: "lookup_cell yes_no =
             (\<lambda>v. if v = StrV ''Yes'' then Some 1 else if v = StrV ''No'' then Some 0 else None)"
    by (rule ext) (rule lookup_yes_no)
  show ?thesis
    using assms unfolding series_map_def Let_def f by (auto simp: list_all_iff)
qed

lemma try_return_self_ok:
  "body (buffer self w) (gen w) = (Inr (), d, g) \<Longrightarrow>
   try_return_self body self w = (Inr self, w\<lparr>frames := (frames w)(get_df self w := d), gen := g\<rparr>)"
  by (simp add: try_return_self_def buffer_def get_df_def)

lemma buffer_after:
  "buffer self (w\<lparr>frames := (frames w)(get_df self w := d), gen := g\<rparr>) = d"
  "buffer self (w\<lparr>frames := (frames w)(get_df self w := d)\<rparr>) = d"
  by (simp_all add: buffer_def get_df_def)

lemma preparar_body_ok:
  assumes wf: "wf_df d" and ch: "getitem d ''Churn'' = Inr churn"
      and sm: "series_map yes_no churn = Inr new"
  shows "\<exists>d'. preparar_coluna_churn_body d g = (Inr (), d', g) \<and>
              setitem d ''Churn'' new = Inr d'"
proof -
  have "length new = index_len d"
    using series_map_length[OF sm] wf_df_getitem[OF wf ch] by simp
  then obtain d' where "setitem d ''Churn'' new = Inr d'"
    using setitem_ok by blast
  then show ?thesis
    by (simp add: preparar_coluna_churn_body_def ch sm)
qed

lemma wf_exemplo: "wf_df (buffer 0 exemplo_mundo)"
  by (simp add: wf_df_def buffer_def get_df_def exemplo_mundo_def exemplo_df_def)

lemma churn_exemplo:
  "getitem (buffer 0 exemplo_mundo) ''Churn'' = Inr [StrV ''Yes'', StrV ''No'']"
  by (simp add: getitem_def buffer_def get_df_def exemplo_mundo_def exemplo_df_def)

lemma wf_misto: "wf_df (buffer 0 misto_mundo)"
  by (simp add: wf_df_def buffer_def get_df_def misto_mundo_def misto_df_def)

lemma churn_misto:
  "getitem (buffer 0 misto_mundo) ''Churn'' = Inr [StrV ''Yes'', IntV 1, StrV ''maybe'']"
  by (simp add: getitem_def buffer_def get_df_def misto_mundo_def misto_df_def)

lemma preparar_step:
  assumes wf: "wf_df (buffer self w)"
      and ch: "getitem (buffer self w) ''Churn'' = Inr churn"
      and sm: "series_map yes_no churn = Inr new"
  shows "\<exists>w'. preparar_coluna_churn self w = (Inr self, w') \<and>
              getitem (buffer self w') ''Churn'' = Inr new \<and>
              wf_df (buffer self w')"
proof -
  obtain d' where b: "preparar_coluna_churn_body (buffer self w) (gen w) = (Inr (), d', gen w)"
    and s: "setitem (buffer self w) ''Churn'' new = Inr d'"
    using preparar_body_ok[OF wf ch sm] by blast
  let ?w' = "w\<lparr>frames := (frames w)(get_df self w := d'), gen := gen w\<rparr>"
  have 1: "preparar_coluna_churn self w = (Inr self, ?w')"
    unfolding preparar_coluna_churn_def
    by (rule try_return_self_ok[of preparar_coluna_churn_body, OF b])
  have 2: "getitem (buffer self ?w') ''Churn'' = Inr new"
    by (simp add: buffer_after getitem_setitem[OF s])
  have 3: "wf_df (buffer self ?w')"
    using wf_df_setitem[OF wf s] by (simp add: buffer_after)
  from 1 2 3 show ?thesis by blast
qed

lemma np_where_ok:
  assumes "length xs = length c" and "length ys = length c"
  shows "\<exists>vs. np_where c xs ys = Inr vs \<and> length vs = length c \<and>
           (\<forall>i<length c. vs ! i = (if c ! i then xs ! i else ys ! i))"
  using assms by (simp add: np_where_def)

lemma where_churn_ok:
  assumes wf: "wf_df d"
      and ch: "getitem d ''Churn'' = Inr churn"
      and r1: "\<forall>n g. length (fst (draw1 n g)) = n \<and> (\<forall>i<n. P1 (fst (draw1 n g) ! i))"
      and r2: "\<forall>n g. length (fst (draw2 n g)) = n \<and> (\<forall>i<n. P2 (fst (draw2 n g) ! i))"
      and nm: "name \<noteq> ''Churn''"
  shows "\<exists>d' g' vs. where_churn name draw1 draw2 d g = (Inr d', g') \<and>
           wf_df d' \<and> index_len d' = index_len d \<and>
           getitem d' ''Churn'' = Inr churn \<and>
           getitem d' name = Inr (map IntV vs) \<and> length vs = length churn \<and>
           (\<forall>i<length churn. if eq_one (churn ! i) then P1 (vs ! i) else P2 (vs ! i))"
proof -
  have n: "length churn = index_len d" by (rule wf_df_getitem[OF wf ch])
  obtain a g1 where d1: "draw1 (index_len d) g = (a, g1)" by (cases "draw1 (index_len d) g")
  obtain b g2 where d2: "draw2 (index_len d) g1 = (b, g2)" by (cases "draw2 (index_len d) g1")
  have la: "length a = index_len d" and pa: "\<forall>i<index_len d. P1 (a ! i)"
    using r1 d1 by (metis fst_conv)+
  have lb: "length b = index_len d" and pb: "\<forall>i<index_len d. P2 (b ! i)"
    using r2 d2 by (metis fst_conv)+
  obtain vs where w: "np_where (map eq_one churn) a b = Inr vs"
    and lv: "length vs = length churn"
    and sel: "\<forall>i<length churn. vs ! i = (if eq_one (churn ! i) then a ! i else b ! i)"
    using np_where_ok[of a "map eq_one churn" b] la lb n by auto
  obtain d' where s: "setitem d name (map IntV vs) = Inr d'"
    using setitem_ok[of "map IntV vs" d name] lv n by auto
  have 1: "where_churn name draw1 draw2 d g = (Inr d', g2)"
    by (simp add: where_churn_def ch d1 d2 w s)
  have 2: "wf_df d'" by (rule wf_df_setitem[OF wf s])
  have 3: "index_len d' = index_len d" by (rule index_len_setitem[OF s])
  have 4: "getitem d' ''Churn'' = Inr churn"
    using nm by (simp add: getitem_setitem[OF s] ch)
  have 5: "getitem d' name = Inr (map IntV vs)"
    by (simp add: getitem_setitem[OF s])
  have 6: "\<forall>i<length churn. if eq_one (churn ! i) then P1 (vs ! i) else P2 (vs ! i)"
    using sel pa pb n by auto
  from 1 2 3 4 5 lv 6 show ?thesis by blast
qed

lemma poisson_draws:
  "\<forall>n g. length (fst (poisson lam n g)) = n \<and> (\<forall>i<n. 0 \<le> fst (poisson lam n g) ! i)"
  by (auto simp: poisson_def draw_def)

lemma randint_draws:
  assumes "lo < hi"
  shows "\<forall>n g. length (fst (randint lo hi n g)) = n \<and>
           (\<forall>i<n. lo \<le> fst (randint lo hi n g) ! i \<and> fst (randint lo hi n g) ! i < hi)"
proof (intro allI)
  fix n g
  obtain xs g' where r: "randint lo hi n g = (xs, g')" by (cases "randint lo hi n g")
  show "length (fst (randint lo hi n g)) = n \<and>
           (\<forall>i<n. lo \<le> fst (randint lo hi n g) ! i \<and> fst (randint lo hi n g) ! i < hi)"
    using length_randint[OF r] randint_range[OF assms r] by (simp add: r)
qed

lemma interacao_body_ok:
  assumes wf: "wf_df d" and ch: "getitem d ''Churn'' = Inr churn"
  shows "\<exists>d' g' days. gerar_features_interacao_body d g = (Inr (), d', g') \<and>
           getitem d' ''Churn'' = Inr churn \<and>
           getitem d' ''last_interaction_days_ago'' = Inr (map IntV days) \<and>
           length days = length churn \<and>
           (\<forall>i<length churn. if eq_one (churn ! i) then 15 \<le> days ! i \<and> days ! i < 60
                               else 1 \<le> days ! i \<and> days ! i < 15)"
proof -
  obtain d1 g1 where s1: "where_churn ''num_logins_last_30d'' (poisson 2) (poisson 10) d g = (Inr d1, g1)"
    and wf1: "wf_df d1" and ch1: "getitem d1 ''Churn'' = Inr churn"
    using where_churn_ok[where ?draw1.0="poisson 2" and ?draw2.0="poisson 10"
        and ?P1.0="\<lambda>x. 0 \<le> x" and ?P2.0="\<lambda>x. 0 \<le> x" and name="''num_logins_last_30d''"
        and g=g, OF wf ch poisson_draws poisson_draws]
    by auto
  obtain d2 g2 where s2: "where_churn ''support_tickets_last_90d'' (poisson 3) (poisson 1) d1 g1 = (Inr d2, g2)"
    and wf2: "wf_df d2" and ch2: "getitem d2 ''Churn'' = Inr churn"
    using where_churn_ok[where ?draw1.0="poisson 3" and ?draw2.0="poisson 1"
        and ?P1.0="\<lambda>x. 0 \<le> x" and ?P2.0="\<lambda>x. 0 \<le> x" and name="''support_tickets_last_90d''"
        and g=g1, OF wf1 ch1 poisson_draws poisson_draws]
    by auto
  have r15: "\<forall>n g. length (fst (randint 15 60 n g)) = n \<and>
           (\<forall>i<n. 15 \<le> fst (randint 15 60 n g) ! i \<and> fst (randint 15 60 n g) ! i < 60)"
    by (rule randint_draws) simp
  have r1: "\<forall>n g. length (fst (randint 1 15 n g)) = n \<and>
           (\<forall>i<n. 1 \<le> fst (randint 1 15 n g) ! i \<and> fst (randint 1 15 n g) ! i < 15)"
    by (rule randint_draws) simp
  obtain d3 g3 days where
        s3: "where_churn ''last_interaction_days_ago'' (randint 15 60) (randint 1 15) d2 g2 = (Inr d3, g3)"
    and ch3: "getitem d3 ''Churn'' = Inr churn"
    and dy: "getitem d3 ''last_interaction_days_ago'' = Inr (map IntV days)"
    and ld: "length days = length churn"
    and rg: "\<forall>i<length churn. if eq_one (churn ! i) then 15 \<le> days ! i \<and> days ! i < 60
                               else 1 \<le> days ! i \<and> days ! i < 15"
    using where_churn_ok[where ?draw1.0="randint 15 60" and ?draw2.0="randint 1 15"
        and ?P1.0="\<lambda>x. 15 \<le> x \<and> x < 60" and ?P2.0="\<lambda>x. 1 \<le> x \<and> x < 15"
        and name="''last_interaction_days_ago''" and g=g2, OF wf2 ch2 r15 r1]
    by auto
  have "gerar_features_interacao_body d g = (Inr (), d3, g3)"
    by (simp add: gerar_features_interacao_body_def s1 s2 s3)
  with ch3 dy ld rg show ?thesis by blast
qed


lemma where_churn_wf:
  assumes wf: "wf_df d" and w: "where_churn name draw1 draw2 d g = (Inr d', g')"
  shows "wf_df d' \<and> index_len d' = index_len d"
proof -
  from w obtain vs where "setitem d name vs = Inr d'"
    by (auto simp: where_churn_def split: sum.splits prod.splits)
  then show ?thesis
    using wf wf_df_setitem index_len_setitem by blast
qed


lemma preparar_body_wf:
  assumes wf: "wf_df d" and b: "preparar_coluna_churn_body d g = (r, d', g')"
  shows "wf_df d' \<and> index_len d' = index_len d"
proof -
  from b have "d' = d \<or> (\<exists>vs. setitem d ''Churn'' vs = Inr d')"
    by (auto simp: preparar_coluna_churn_body_def split: sum.splits)
  then show ?thesis
    using wf wf_df_setitem index_len_setitem by blast
qed

lemma interacao_body_wf:
  assumes wf: "wf_df d" and b: "gerar_features_interacao_body d g = (r, d', g')"
  shows "wf_df d' \<and> index_len d' = index_len d"
proof -
  obtain r1 g1 where s1:
    "where_churn ''num_logins_last_30d'' (poisson 2) (poisson 10) d g = (r1, g1)"
    by (cases "where_churn ''num_logins_last_30d'' (poisson 2) (poisson 10) d g")
  show ?thesis
  proof (cases r1)
    case (Inl e)
    with s1 b have "d' = d" by (simp add: gerar_features_interacao_body_def)
    with wf show ?thesis by simp
  next
    case d1: (Inr d1)
    have k1: "wf_df d1 \<and> index_len d1 = index_len d"
      using where_churn_wf[OF wf] s1 d1 by simp
    obtain r2 g2 where s2:
      "where_churn ''support_tickets_last_90d'' (poisson 3) (poisson 1) d1 g1 = (r2, g2)"
      by (cases "where_churn ''support_tickets_last_90d'' (poisson 3) (poisson 1) d1 g1")
    show ?thesis
    proof (cases r2)
      case (Inl e)
      with s1 d1 s2 b have "d' = d1" by (simp add: gerar_features_interacao_body_def)
      with k1 show ?thesis by simp
    next
      case d2: (Inr d2)
      have k2: "wf_df d2 \<and> index_len d2 = index_len d"
        using where_churn_wf[of d1] k1 s2 d2 by simp
      obtain r3 g3 where s3:
        "where_churn ''last_interaction_days_ago'' (randint 15 60) (randint 1 15) d2 g2 = (r3, g3)"
        by (cases "where_churn ''last_interaction_days_ago'' (randint 15 60) (randint 1 15) d2 g2")
      show ?thesis
      proof (cases r3)
        case (Inl e)
        with s1 d1 s2 d2 s3 b have "d' = d2" by (simp add: gerar_features_interacao_body_def)
        with k2 show ?thesis by simp
      next
        case (Inr d3)
        with s1 d1 s2 d2 s3 b have "d' = d3" by (simp add: gerar_features_interacao_body_def)
        then show ?thesis
          using where_churn_wf[of d2] k2 s3 Inr by simp
      qed
    qed
  qed
qed

lemma length_apply_gen: "apply_gen f vs g = (ys, g') \<Longrightarrow> length ys = length vs"
  by (induction vs arbitrary: g ys) (auto split: prod.splits)

lemma apply_gen_all:
  assumes "\<And>v g. P (fst (f v g))"
  shows "apply_gen f vs g = (ys, g') \<Longrightarrow> \<forall>y\<in>set ys. P y"
proof (induction vs arbitrary: g ys g')
  case Nil
  then show ?case by simp
next
  case (Cons v vs)
  obtain y g1 where f: "f v g = (y, g1)" by (cases "f v g")
  obtain rest g2 where r: "apply_gen f vs g1 = (rest, g2)" by (cases "apply_gen f vs g1")
  from Cons.prems f r have ys: "ys = y # rest" by simp
  have "P y" using assms[of v g] f by simp
  moreover have "\<forall>y\<in>set rest. P y" by (rule Cons.IH[OF r])
  ultimately show ?case by (simp add: ys)
qed

lemma length_generate_usage_series: "length (fst (generate_usage_series churned g)) = 6"
  by (simp add: generate_usage_series_def poisson_def draw_def linspace_def ones_def)

lemma series_apply_lists:
  "\<forall>x\<in>set usage. f (ListV x) = Inr (h x) \<Longrightarrow>
     series_apply f (map ListV usage) = Inr (map h usage)"
  by (induction usage) auto

lemma apply_column_wf:
  assumes wf: "wf_df d" and a: "apply_column target source f d = Inr d'"
  shows "wf_df d' \<and> index_len d' = index_len d"
proof -
  from a obtain vs where "setitem d target vs = Inr d'"
    by (auto simp: apply_column_def split: sum.splits)
  then show ?thesis
    using wf wf_df_setitem index_len_setitem by blast
qed

lemma apply_column_ok:
  assumes wf: "wf_df d"
      and src: "getitem d source = Inr (map ListV usage)"
      and f: "\<forall>x\<in>set usage. f (ListV x) = Inr (h x)"
  shows "\<exists>d'. apply_column target source f d = Inr d' \<and>
              getitem d' target = Inr (map h usage) \<and>
              (\<forall>m. m \<noteq> target \<longrightarrow> getitem d' m = getitem d m)"
proof -
  have "length (map h usage) = index_len d"
    using wf_df_getitem[OF wf src] by simp
  then obtain d' where s: "setitem d target (map h usage) = Inr d'"
    using setitem_ok by blast
  have "apply_column target source f d = Inr d'"
    by (simp add: apply_column_def src series_apply_lists[OF f] s)
  then show ?thesis
    by (auto simp: getitem_setitem[OF s])
qed

lemma mean_last_three:
  assumes "length x = 6"
  shows "np_mean (drop (length x - 3) x) = FloatV (real_of_int (x ! 3 + x ! 4 + x ! 5) / 3)"
proof -
  from assms obtain a b c d e f where "x = [a, b, c, d, e, f]"
    by (auto simp: eval_nat_numeral length_Suc_conv)
  then show ?thesis by (simp add: np_mean_def)
qed

lemma uso_body_ok:
  assumes wf: "wf_df d" and ch: "getitem d ''Churn'' = Inr churn"
  shows "\<exists>d' g' usage. gerar_features_uso_recente_body d g = (Inr (), d', g') \<and>
           getitem d' ''usage_last_6m'' = Inr (map ListV usage) \<and>
           length usage = index_len d \<and> (\<forall>x\<in>set usage. length x = 6) \<and>
           getitem d' ''avg_usage_last_3m''
             = Inr (map (\<lambda>x. np_mean (drop (length x - 3) x)) usage)"
proof -
  obtain usage g1 where ag: "apply_gen generate_usage_series churn g = (usage, g1)"
    by (cases "apply_gen generate_usage_series churn g")
  have lu: "length usage = index_len d"
    using length_apply_gen[OF ag] wf_df_getitem[OF wf ch] by simp
  have six: "\<forall>x\<in>set usage. length x = 6"
    by (rule apply_gen_all[where P="\<lambda>x. length x = 6", OF length_generate_usage_series ag])
  obtain d1 where s1: "setitem d ''usage_last_6m'' (map ListV usage) = Inr d1"
    using setitem_ok[of "map ListV usage" d] lu by auto
  have wf1: "wf_df d1" by (rule wf_df_setitem[OF wf s1])
  have u1: "getitem d1 ''usage_last_6m'' = Inr (map ListV usage)"
    by (simp add: getitem_setitem[OF s1])
  have ft: "\<forall>x\<in>set usage. trend_usage_fn (ListV x) = Inr (FloatV (polyfit_slope 6 x))"
    using six by simp
  obtain d2 where s2: "apply_column ''trend_usage'' ''usage_last_6m'' trend_usage_fn d1 = Inr d2"
    and o2: "\<forall>m. m \<noteq> ''trend_usage'' \<longrightarrow> getitem d2 m = getitem d1 m"
    using apply_column_ok[OF wf1 u1 ft] by blast
  have wf2: "wf_df d2" using apply_column_wf[OF wf1 s2] by simp
  have u2: "getitem d2 ''usage_last_6m'' = Inr (map ListV usage)"
    using o2 u1 by simp
  have fs: "\<forall>x\<in>set usage. std_usage_fn (ListV x) = Inr (np_std x)"
    by simp
  obtain d3 where s3: "apply_column ''std_usage'' ''usage_last_6m'' std_usage_fn d2 = Inr d3"
    and o3: "\<forall>m. m \<noteq> ''std_usage'' \<longrightarrow> getitem d3 m = getitem d2 m"
    using apply_column_ok[OF wf2 u2 fs] by blast
  have wf3: "wf_df d3" using apply_column_wf[OF wf2 s3] by simp
  have u3: "getitem d3 ''usage_last_6m'' = Inr (map ListV usage)"
    using o3 u2 by simp
  have fa: "\<forall>x\<in>set usage. avg_usage_last_3m_fn (ListV x)
              = Inr (np_mean (drop (length x - 3) x))"
    by simp
  obtain d4 where
        s4: "apply_column ''avg_usage_last_3m'' ''usage_last_6m'' avg_usage_last_3m_fn d3 = Inr d4"
    and a4: "getitem d4 ''avg_usage_last_3m''
               = Inr (map (\<lambda>x. np_mean (drop (length x - 3) x)) usage)"
    and o4: "\<forall>m. m \<noteq> ''avg_usage_last_3m'' \<longrightarrow> getitem d4 m = getitem d3 m"
    using apply_column_ok[OF wf3 u3 fa] by blast
  have u4: "getitem d4 ''usage_last_6m'' = Inr (map ListV usage)"
    using o4 u3 by simp
  have "gerar_features_uso_recente_body d g = (Inr (), d4, g1)"
    by (simp add: gerar_features_uso_recente_body_def ch ag s1 s2 s3 s4)
  with u4 lu six a4 show ?thesis by blast
qed

lemma uso_body_wf:
  assumes wf: "wf_df d" and b: "gerar_features_uso_recente_body d g = (r, d', g')"
  shows "wf_df d' \<and> index_len d' = index_len d"
proof (cases "getitem d ''Churn''")
  case (Inl e)
  with b have "d' = d" by (simp add: gerar_features_uso_recente_body_def)
  with wf show ?thesis by simp
next
  case ch: (Inr churn)
  obtain usage g1 where ag: "apply_gen generate_usage_series churn g = (usage, g1)"
    by (cases "apply_gen generate_usage_series churn g")
  show ?thesis
  proof (cases "setitem d ''usage_last_6m'' (map ListV usage)")
    case (Inl e)
    with ch ag b have "d' = d" by (simp add: gerar_features_uso_recente_body_def)
    with wf show ?thesis by simp
  next
    case s1: (Inr d1)
    have k1: "wf_df d1 \<and> index_len d1 = index_len d"
      using wf_df_setitem[OF wf s1] index_len_setitem[OF s1] by simp
    show ?thesis
    proof (cases "apply_column ''trend_usage'' ''usage_last_6m'' trend_usage_fn d1")
      case (Inl e)
      with ch ag s1 b have "d' = d1" by (simp add: gerar_features_uso_recente_body_def)
      with k1 show ?thesis by simp
    next
      case s2: (Inr d2)
      have k2: "wf_df d2 \<and> index_len d2 = index_len d"
        using apply_column_wf[OF _ s2] k1 by simp
      show ?thesis
      proof (cases "apply_column ''std_usage'' ''usage_last_6m'' std_usage_fn d2")
        case (Inl e)
        with ch ag s1 s2 b have "d' = d2" by (simp add: gerar_features_uso_recente_body_def)
        with k2 show ?thesis by simp
      next
        case s3: (Inr d3)
        have k3: "wf_df d3 \<and> index_len d3 = index_len d"
          using apply_column_wf[OF _ s3] k2 by simp
        show ?thesis
        proof (cases "apply_column ''avg_usage_last_3m'' ''usage_last_6m''
                        avg_usage_last_3m_fn d3")
          case (Inl e)
          with ch ag s1 s2 s3 b have "d' = d3"
            by (simp add: gerar_features_uso_recente_body_def)
          with k3 show ?thesis by simp
        next
          case s4: (Inr d4)
          with ch ag s1 s2 s3 b have "d' = d4"
            by (simp add: gerar_features_uso_recente_body_def)
          then show ?thesis
            using apply_column_wf[OF _ s4] k3 by simp
        qed
      qed
    qed
  qed
qed

text \<open>What a wrapped method does to the world, whatever its body returns.\<close>

lemma try_return_self_world:
  assumes "body (buffer self w) (gen w) = (r, d, g)"
  shows "try_return_self body self w =
           (case r of Inl e \<Rightarrow> Inl (CustomException e) | Inr u \<Rightarrow> Inr self,
            w\<lparr>frames := (frames w)(get_df self w := d), gen := g\<rparr>)"
  using assms by (simp add: try_return_self_def buffer_def get_df_def)

lemma try_return_self_wf:
  assumes keep: "\<And>d g r d' g'. wf_df d \<Longrightarrow> body d g = (r, d', g') \<Longrightarrow>
                   wf_df d' \<and> index_len d' = index_len d"
      and wf: "wf_df (buffer self w)"
  shows "wf_df (buffer self (snd (try_return_self body self w))) \<and>
         index_len (buffer self (snd (try_return_self body self w))) = index_len (buffer self w)"
proof -
  obtain r d g where b: "body (buffer self w) (gen w) = (r, d, g)"
    by (cases "body (buffer self w) (gen w)")
  have "buffer self (snd (try_return_self body self w)) = d"
    by (simp add: try_return_self_world[of body, OF b] buffer_after)
  then show ?thesis using keep[OF wf b] by simp
qed

lemma try_return_self_result:
  "try_return_self body self w = (Inr obj, w') \<Longrightarrow> obj = self"
  by (auto simp: try_return_self_def split: prod.splits sum.splits)

lemma try_return_self_store:
  "pipelines (snd (try_return_self body self w)) = pipelines w \<and>
   next_frame (snd (try_return_self body self w)) = next_frame w \<and>
   io (snd (try_return_self body self w)) = io w \<and>
   (\<forall>r. r \<noteq> get_df self w \<longrightarrow> frames (snd (try_return_self body self w)) r = frames w r)"
  by (simp add: try_return_self_def get_df_def split: prod.splits)

lemma wf_numerico: "wf_df (buffer 0 numerico_mundo)"
  by (simp add: wf_df_def buffer_def get_df_def numerico_mundo_def numerico_df_def)

lemma churn_numerico:
  "getitem (buffer 0 numerico_mundo) ''Churn'' = Inr [IntV 1, IntV 0]"
  by (simp add: getitem_def buffer_def get_df_def numerico_mundo_def numerico_df_def)

lemma aplicar_unfold:
  "aplicar_enriquecimento_padrao self w =
     (case preparar_coluna_churn self w of
        (Inl e, w1) \<Rightarrow> (Inl e, w1)
      | (Inr r1, w1) \<Rightarrow>
          (case gerar_features_interacao self w1 of
             (Inl e, w2) \<Rightarrow> (Inl e, w2)
           | (Inr r2, w2) \<Rightarrow>
               (case gerar_features_uso_recente self w2 of
                  (Inl e, w3) \<Rightarrow> (Inl e, w3)
                | (Inr r3, w3) \<Rightarrow> (Inr self, w3))))"
proof (cases "preparar_coluna_churn self w")
  case p: (Pair r1 w1)
  show ?thesis
  proof (cases r1)
    case (Inl e)
    with p show ?thesis by (simp add: aplicar_enriquecimento_padrao_def)
  next
    case o1: (Inr obj1)
    have e1: "obj1 = self"
      using p o1 try_return_self_result[of preparar_coluna_churn_body self w obj1 w1]
      by (simp add: preparar_coluna_churn_def)
    show ?thesis
    proof (cases "gerar_features_interacao self w1")
      case i: (Pair r2 w2)
      show ?thesis
      proof (cases r2)
        case (Inl e)
        with p o1 e1 i show ?thesis by (simp add: aplicar_enriquecimento_padrao_def)
      next
        case o2: (Inr obj2)
        have e2: "obj2 = self"
          using i o2 try_return_self_result[of gerar_features_interacao_body self w1 obj2 w2]
          by (simp add: gerar_features_interacao_def)
        from p o1 e1 i o2 e2 show ?thesis
          by (simp add: aplicar_enriquecimento_padrao_def)
      qed
    qed
  qed
qed

lemma aplicar_world:
  "snd (aplicar_enriquecimento_padrao self w) = snd (preparar_coluna_churn self w) \<or>
   snd (aplicar_enriquecimento_padrao self w)
     = snd (gerar_features_interacao self (snd (preparar_coluna_churn self w))) \<or>
   snd (aplicar_enriquecimento_padrao self w)
     = snd (gerar_features_uso_recente self
              (snd (gerar_features_interacao self (snd (preparar_coluna_churn self w)))))"
  unfolding aplicar_unfold by (simp split: prod.splits sum.splits)

lemma passo_simples_wf:
  assumes wf: "wf_df (buffer self w)"
  shows "wf_df (buffer self (snd (preparar_coluna_churn self w))) \<and>
         index_len (buffer self (snd (preparar_coluna_churn self w))) = index_len (buffer self w)"
    and "wf_df (buffer self (snd (gerar_features_interacao self w))) \<and>
         index_len (buffer self (snd (gerar_features_interacao self w))) = index_len (buffer self w)"
    and "wf_df (buffer self (snd (gerar_features_uso_recente self w))) \<and>
         index_len (buffer self (snd (gerar_features_uso_recente self w))) = index_len (buffer self w)"
  unfolding preparar_coluna_churn_def gerar_features_interacao_def gerar_features_uso_recente_def
  using try_return_self_wf[of preparar_coluna_churn_body, OF preparar_body_wf wf]
        try_return_self_wf[of gerar_features_interacao_body, OF interacao_body_wf wf]
        try_return_self_wf[of gerar_features_uso_recente_body, OF uso_body_wf wf]
  by simp_all

lemma passo_simples_store:
  "pipelines (snd (preparar_coluna_churn self w)) = pipelines w \<and>
   (\<forall>r. r \<noteq> get_df self w \<longrightarrow> frames (snd (preparar_coluna_churn self w)) r = frames w r)"
  "pipelines (snd (gerar_features_interacao self w)) = pipelines w \<and>
   (\<forall>r. r \<noteq> get_df self w \<longrightarrow> frames (snd (gerar_features_interacao self w)) r = frames w r)"
  "pipelines (snd (gerar_features_uso_recente self w)) = pipelines w \<and>
   (\<forall>r. r \<noteq> get_df self w \<longrightarrow> frames (snd (gerar_features_uso_recente self w)) r = frames w r)"
  unfolding preparar_coluna_churn_def gerar_features_interacao_def gerar_features_uso_recente_def
  using try_return_self_store by blast+

lemma interacao_step:
  assumes wf: "wf_df (buffer self w)"
      and ch: "getitem (buffer self w) ''Churn'' = Inr churn"
  shows "\<exists>w'. gerar_features_interacao self w = (Inr self, w') \<and>
              getitem (buffer self w') ''Churn'' = Inr churn \<and> wf_df (buffer self w')"
proof -
  obtain d' g' where
        b: "gerar_features_interacao_body (buffer self w) (gen w) = (Inr (), d', g')"
    and c: "getitem d' ''Churn'' = Inr churn"
    using interacao_body_ok[OF wf ch] by blast
  let ?w' = "w\<lparr>frames := (frames w)(get_df self w := d'), gen := g'\<rparr>"
  have 1: "gerar_features_interacao self w = (Inr self, ?w')"
    unfolding gerar_features_interacao_def
    by (rule try_return_self_ok[of gerar_features_interacao_body, OF b])
  have 2: "buffer self ?w' = d'" by (simp add: buffer_after)
  have 3: "wf_df d'" using interacao_body_wf[OF wf b] by simp
  from 1 c 3 show ?thesis by (metis 2)
qed

lemma uso_step:
  assumes wf: "wf_df (buffer self w)"
      and ch: "getitem (buffer self w) ''Churn'' = Inr churn"
  shows "\<exists>w'. gerar_features_uso_recente self w = (Inr self, w')"
proof -
  obtain d' g' where
        b: "gerar_features_uso_recente_body (buffer self w) (gen w) = (Inr (), d', g')"
    using uso_body_ok[OF wf ch] by blast
  show ?thesis
    unfolding gerar_features_uso_recente_def
    using try_return_self_ok[of gerar_features_uso_recente_body, OF b] by blast
qed

lemma aplicar_ok:
  assumes wf: "wf_df (buffer self w)"
      and ch: "getitem (buffer self w) ''Churn'' = Inr churn"
      and sc: "\<not> list_ex is_list churn"
  shows "\<exists>w'. aplicar_enriquecimento_padrao self w = (Inr self, w')"
proof -
  obtain new where sm: "series_map yes_no churn = Inr new"
    using series_map_scalars[OF sc] by blast
  obtain w1 where 1: "preparar_coluna_churn self w = (Inr self, w1)"
    and c1: "getitem (buffer self w1) ''Churn'' = Inr new" and wf1: "wf_df (buffer self w1)"
    using preparar_step[OF wf ch sm] by blast
  obtain w2 where 2: "gerar_features_interacao self w1 = (Inr self, w2)"
    and c2: "getitem (buffer self w2) ''Churn'' = Inr new" and wf2: "wf_df (buffer self w2)"
    using interacao_step[OF wf1 c1] by blast
  obtain w3 where 3: "gerar_features_uso_recente self w2 = (Inr self, w3)"
    using uso_step[OF wf2 c2] by blast
  show ?thesis by (simp add: aplicar_unfold 1 2 3)
qed

lemma passo_run_wf:
  assumes wf: "wf_df (buffer self w)"
  shows "wf_df (buffer self (snd (passo_run p self w))) \<and>
         index_len (buffer self (snd (passo_run p self w))) = index_len (buffer self w)"
proof (cases p)
  case Preparar
  then show ?thesis using passo_simples_wf(1)[OF wf] by simp
next
  case Interacao
  then show ?thesis using passo_simples_wf(2)[OF wf] by simp
next
  case UsoRecente
  then show ?thesis using passo_simples_wf(3)[OF wf] by simp
next
  case Padrao
  let ?w1 = "snd (preparar_coluna_churn self w)"
  let ?w2 = "snd (gerar_features_interacao self ?w1)"
  let ?w3 = "snd (gerar_features_uso_recente self ?w2)"
  have k1: "wf_df (buffer self ?w1) \<and> index_len (buffer self ?w1) = index_len (buffer self w)"
    by (rule passo_simples_wf(1)[OF wf])
  have k2: "wf_df (buffer self ?w2) \<and> index_len (buffer self ?w2) = index_len (buffer self w)"
    using passo_simples_wf(2)[of self ?w1] k1 by simp
  have k3: "wf_df (buffer self ?w3) \<and> index_len (buffer self ?w3) = index_len (buffer self w)"
    using passo_simples_wf(3)[of self ?w2] k2 by simp
  from aplicar_world[of self w] k1 k2 k3 Padrao show ?thesis
    by (elim disjE) simp_all
qed

lemma passo_run_store:
  "get_df self (snd (passo_run p self w)) = get_df self w \<and>
   (\<forall>r. r \<noteq> get_df self w \<longrightarrow> frames (snd (passo_run p self w)) r = frames w r)"
proof (cases p)
  case Preparar
  then show ?thesis using passo_simples_store(1)[of self w] by (simp add: get_df_def)
next
  case Interacao
  then show ?thesis using passo_simples_store(2)[of self w] by (simp add: get_df_def)
next
  case UsoRecente
  then show ?thesis using passo_simples_store(3)[of self w] by (simp add: get_df_def)
next
  case Padrao
  let ?w1 = "snd (preparar_coluna_churn self w)"
  let ?w2 = "snd (gerar_features_interacao self ?w1)"
  let ?w3 = "snd (gerar_features_uso_recente self ?w2)"
  have k1: "get_df self ?w1 = get_df self w \<and>
            (\<forall>r. r \<noteq> get_df self w \<longrightarrow> frames ?w1 r = frames w r)"
    using passo_simples_store(1)[of self w] by (simp add: get_df_def)
  have k2: "get_df self ?w2 = get_df self w \<and>
            (\<forall>r. r \<noteq> get_df self w \<longrightarrow> frames ?w2 r = frames w r)"
    using passo_simples_store(2)[of self ?w1] k1 by (simp add: get_df_def)
  have k3: "get_df self ?w3 = get_df self w \<and>
            (\<forall>r. r \<noteq> get_df self w \<longrightarrow> frames ?w3 r = frames w r)"
    using passo_simples_store(3)[of self ?w2] k2 by (simp add: get_df_def)
  from aplicar_world[of self w] k1 k2 k3 Padrao show ?thesis
    by (elim disjE) simp_all
qed

lemma passos_run_frame:
  "get_df self w \<noteq> a \<Longrightarrow> frames (passos_run ps self w) a = frames w a"
proof (induction ps arbitrary: w)
  case Nil
  then show ?case by simp
next
  case (Cons p ps)
  let ?w1 = "snd (passo_run p self w)"
  have g: "get_df self ?w1 = get_df self w" and f: "frames ?w1 a = frames w a"
    using passo_run_store[of self p w] Cons.prems by auto
  have "frames (passos_run ps self ?w1) a = frames ?w1 a"
    using Cons.IH[of ?w1] g Cons.prems by simp
  with f show ?case by simp
qed

lemma ext_txt: "lower (snd (splitext ''saida/dados.txt'')) = ''.txt''"
  by (simp add: splitext_def rfind_def lower_def lower_char_def)

lemma lower_txt: "lower ''.txt'' = ''.txt''"
  by (simp add: lower_def lower_char_def)

lemma dir_saida: "dirname ''saida/dados.txt'' = ''saida''"
  by (simp add: dirname_def rfind_def rstrip_def)

lemma ext_xlsx: "snd (splitext ''dados/clientes.XLSX'') = ''.XLSX''"
  by (simp add: splitext_def rfind_def)

lemma lower_xlsx: "lower ''.XLSX'' = ''.xlsx''"
  by (simp add: lower_def lower_char_def)

lemma ext_out: "lower (snd (splitext ''blocker/out.xlsx'')) = ''.xlsx''"
  by (simp add: splitext_def rfind_def lower_def lower_char_def)

lemma dir_blocker: "dirname ''blocker/out.xlsx'' = ''blocker''"
  by (simp add: dirname_def rfind_def rstrip_def)

section \<open>The claims\<close>

text \<open>
  C1, as stated: on a path whose extension has no registered strategy, \<^verbatim>\<open>from_file\<close>
  and \<^verbatim>\<open>salvar\<close> fail without any I/O. \<^verbatim>\<open>salvar\<close> creates the parent directory before
  it looks the extension up: on \<^verbatim>\<open>saida/dados.txt\<close> it has called \<^verbatim>\<open>os.makedirs\<close> when
  it fails.
\<close>

theorem salvar_unknown_extension_counterexample:
  "estrategias_salvamento (lower (snd (splitext ''saida/dados.txt''))) = None \<and>
   io exemplo_mundo = [] \<and>
   io (snd (salvar exemplo_sistema 0 ''saida/dados.txt'' exemplo_mundo)) = [MakeDirs ''saida'']"
  by (simp add: ext_txt dir_saida estrategias_salvamento_def salvar_def exemplo_mundo_def
      exemplo_sistema_def)

text \<open>
  C1, amended. On a path whose lower-cased extension has no read strategy,
  \<^verbatim>\<open>from_file\<close> raises \<^verbatim>\<open>ValueError\<close> and the world is unchanged: no I/O at all. On a
  path whose lower-cased extension has no write strategy, \<^verbatim>\<open>salvar\<close> never calls a
  writer; without a parent directory in the path it raises \<^verbatim>\<open>ValueError\<close> with no I/O,
  and with one its only I/O is \<^verbatim>\<open>os.makedirs\<close> on that directory, after which it raises
  \<^verbatim>\<open>ValueError\<close>, or the exception of \<^verbatim>\<open>os.makedirs\<close> when that call fails.
\<close>

theorem unknown_extension:
  "(estrategia_leitura (lower (snd (splitext p))) = None \<longrightarrow>
      from_file s p w =
        (Inl (ValueError (''Formato de arquivo '' @ quoted (lower (snd (splitext p)))
                            @ '' nao e suportado.'')), w)) \<and>
   (estrategias_salvamento (lower (snd (splitext p))) = None \<longrightarrow>
      salvar s self p w =
        (if dirname p = []
         then (Inl (ValueError (''Formato de arquivo para salvamento ''
                                  @ quoted (snd (splitext p)) @ '' nao e suportado.'')), w)
         else (case makedirs s (dirname p) of
                 None \<Rightarrow> Inl (ValueError (''Formato de arquivo para salvamento ''
                                  @ quoted (snd (splitext p)) @ '' nao e suportado.''))
               | Some e \<Rightarrow> Inl e,
               w\<lparr>io := io w @ [MakeDirs (dirname p)]\<rparr>)))"
  by (simp add: from_file_def salvar_def Let_def split: option.splits)

theorem unknown_extension_witness:
  "estrategia_leitura (lower (snd (splitext ''saida/dados.txt''))) = None \<and>
   estrategias_salvamento (lower (snd (splitext ''saida/dados.txt''))) = None \<and>
   from_file exemplo_sistema ''saida/dados.txt'' exemplo_mundo =
     (Inl (ValueError (''Formato de arquivo '' @ quoted ''.txt'' @ '' nao e suportado.'')),
      exemplo_mundo) \<and>
   fst (salvar exemplo_sistema 0 ''saida/dados.txt'' exemplo_mundo) =
     Inl (ValueError (''Formato de arquivo para salvamento '' @ quoted ''.txt''
                        @ '' nao e suportado.'')) \<and>
   io (snd (salvar exemplo_sistema 0 ''saida/dados.txt'' exemplo_mundo)) = [MakeDirs ''saida'']"
proof -
  have r: "estrategia_leitura (lower (snd (splitext ''saida/dados.txt''))) = None"
    by (simp add: ext_txt estrategia_leitura_def)
  have s: "estrategias_salvamento (lower (snd (splitext ''saida/dados.txt''))) = None"
    by (simp add: ext_txt estrategias_salvamento_def)
  have e: "snd (splitext ''saida/dados.txt'') = ''.txt''"
    by (simp add: splitext_def rfind_def)
  from unknown_extension[of "''saida/dados.txt''" exemplo_sistema exemplo_mundo 0] r s
  show ?thesis
    by (simp add: e lower_txt dir_saida exemplo_sistema_def exemplo_mundo_def)
qed

text \<open>
  C2. For every buffer whose \<^verbatim>\<open>Churn\<close> column exists and holds only the texts "Yes"
  and "No", \<^verbatim>\<open>preparar_coluna_churn\<close> succeeds and the column then holds 1 where it held
  "Yes" and 0 where it held "No": only the integers 0 and 1, and both of them when both
  texts were there.
\<close>

theorem preparar_coluna_churn_yes_no:
  assumes wf: "wf_df (buffer self w)"
      and ch: "getitem (buffer self w) ''Churn'' = Inr churn"
      and yn: "set churn \<subseteq> {StrV ''Yes'', StrV ''No''}"
  shows "\<exists>w' new. preparar_coluna_churn self w = (Inr self, w') \<and>
           getitem (buffer self w') ''Churn'' = Inr new \<and>
           new = map (\<lambda>v. if v = StrV ''Yes'' then IntV 1 else IntV 0) churn \<and>
           set new \<subseteq> {IntV 0, IntV 1} \<and>
           (set churn = {StrV ''Yes'', StrV ''No''} \<longrightarrow> set new = {IntV 0, IntV 1})"
proof -
  let ?new = "map (\<lambda>v. if v = StrV ''Yes'' then IntV 1 else IntV 0) churn"
  obtain w' where 1: "preparar_coluna_churn self w = (Inr self, w')"
    and 2: "getitem (buffer self w') ''Churn'' = Inr ?new"
    using preparar_step[OF wf ch series_map_yes_no[OF yn]] by blast
  have 3: "set ?new \<subseteq> {IntV 0, IntV 1}" by auto
  have 4: "set churn = {StrV ''Yes'', StrV ''No''} \<longrightarrow> set ?new = {IntV 0, IntV 1}"
    by (auto simp: image_def)
  from 1 2 3 4 show ?thesis by blast
qed

theorem preparar_coluna_churn_yes_no_witness:
  "wf_df (buffer 0 exemplo_mundo) \<and>
   getitem (buffer 0 exemplo_mundo) ''Churn'' = Inr [StrV ''Yes'', StrV ''No''] \<and>
   set [StrV ''Yes'', StrV ''No''] \<subseteq> {StrV ''Yes'', StrV ''No''} \<and>
   (\<exists>w'. preparar_coluna_churn 0 exemplo_mundo = (Inr 0, w') \<and>
         getitem (buffer 0 w') ''Churn'' = Inr [IntV 1, IntV 0])"
  using preparar_coluna_churn_yes_no[OF wf_exemplo churn_exemplo] wf_exemplo churn_exemplo
  by auto

text \<open>
  C3. For every buffer whose \<^verbatim>\<open>Churn\<close> column holds only 0 and 1,
  \<^verbatim>\<open>gerar_features_interacao\<close> succeeds, leaves that column as it is, and gives every row
  a \<^verbatim>\<open>last_interaction_days_ago\<close> in \<open>[15, 60)\<close> where \<^verbatim>\<open>Churn\<close> is 1 and in
  \<open>[1, 15)\<close> where it is 0.
\<close>

theorem gerar_features_interacao_days:
  assumes wf: "wf_df (buffer self w)"
      and ch: "getitem (buffer self w) ''Churn'' = Inr churn"
      and num: "set churn \<subseteq> {IntV 0, IntV 1}"
  shows "\<exists>w' days. gerar_features_interacao self w = (Inr self, w') \<and>
           getitem (buffer self w') ''Churn'' = Inr churn \<and>
           getitem (buffer self w') ''last_interaction_days_ago'' = Inr (map IntV days) \<and>
           length days = length churn \<and>
           (\<forall>i<length churn.
              (churn ! i = IntV 1 \<longrightarrow> 15 \<le> days ! i \<and> days ! i < 60) \<and>
              (churn ! i = IntV 0 \<longrightarrow> 1 \<le> days ! i \<and> days ! i < 15))"
proof -
  obtain d' g' days where
        b: "gerar_features_interacao_body (buffer self w) (gen w) = (Inr (), d', g')"
    and c: "getitem d' ''Churn'' = Inr churn"
    and dy: "getitem d' ''last_interaction_days_ago'' = Inr (map IntV days)"
    and ld: "length days = length churn"
    and rg: "\<forall>i<length churn. if eq_one (churn ! i) then 15 \<le> days ! i \<and> days ! i < 60
                               else 1 \<le> days ! i \<and> days ! i < 15"
    using interacao_body_ok[OF wf ch] by blast
  let ?w' = "w\<lparr>frames := (frames w)(get_df self w := d'), gen := g'\<rparr>"
  have 1: "gerar_features_interacao self w = (Inr self, ?w')"
    unfolding gerar_features_interacao_def
    by (rule try_return_self_ok[of gerar_features_interacao_body, OF b])
  have 2: "buffer self ?w' = d'" by (simp add: buffer_after)
  have 3: "\<forall>i<length churn.
              (churn ! i = IntV 1 \<longrightarrow> 15 \<le> days ! i \<and> days ! i < 60) \<and>
              (churn ! i = IntV 0 \<longrightarrow> 1 \<le> days ! i \<and> days ! i < 15)"
  proof (intro allI impI)
    fix i assume i: "i < length churn"
    from rg i have r: "if eq_one (churn ! i) then 15 \<le> days ! i \<and> days ! i < 60
                       else 1 \<le> days ! i \<and> days ! i < 15" by blast
    show "(churn ! i = IntV 1 \<longrightarrow> 15 \<le> days ! i \<and> days ! i < 60) \<and>
          (churn ! i = IntV 0 \<longrightarrow> 1 \<le> days ! i \<and> days ! i < 15)"
    proof (intro conjI impI)
      assume "churn ! i = IntV 1" with r show "15 \<le> days ! i" by simp
    next
      assume "churn ! i = IntV 1" with r show "days ! i < 60" by simp
    next
      assume "churn ! i = IntV 0" with r show "1 \<le> days ! i" by simp
    next
      assume "churn ! i = IntV 0" with r show "days ! i < 15" by simp
    qed
  qed
  from 1 2 c dy ld 3 show ?thesis by auto
qed

theorem gerar_features_interacao_days_witness:
  "wf_df (buffer 0 numerico_mundo) \<and>
   getitem (buffer 0 numerico_mundo) ''Churn'' = Inr [IntV 1, IntV 0] \<and>
   set [IntV 1, IntV 0] \<subseteq> {IntV 0, IntV 1} \<and>
   (\<exists>w' days. gerar_features_interacao 0 numerico_mundo = (Inr 0, w') \<and>
      getitem (buffer 0 w') ''last_interaction_days_ago'' = Inr (map IntV days) \<and>
      15 \<le> days ! 0 \<and> days ! 0 < 60 \<and> 1 \<le> days ! 1 \<and> days ! 1 < 15)"
proof -
  have s: "set [IntV 1, IntV 0] \<subseteq> {IntV 0, IntV 1}" by simp
  obtain w' days where 1: "gerar_features_interacao 0 numerico_mundo = (Inr 0, w')"
    and 2: "getitem (buffer 0 w') ''last_interaction_days_ago'' = Inr (map IntV days)"
    and 3: "\<forall>i<length [IntV 1, IntV 0].
              ([IntV 1, IntV 0] ! i = IntV 1 \<longrightarrow> 15 \<le> days ! i \<and> days ! i < 60) \<and>
              ([IntV 1, IntV 0] ! i = IntV 0 \<longrightarrow> 1 \<le> days ! i \<and> days ! i < 15)"
    using gerar_features_interacao_days[OF wf_numerico churn_numerico s] by blast
  from 3 have "15 \<le> days ! 0 \<and> days ! 0 < 60" "1 \<le> days ! 1 \<and> days ! 1 < 15"
    by (auto simp: numeral_2_eq_2)
  with 1 2 wf_numerico churn_numerico s show ?thesis by blast
qed

text \<open>
  C4. After \<^verbatim>\<open>gerar_features_uso_recente\<close> (which succeeds on every buffer that has a
  \<^verbatim>\<open>Churn\<close> column), every row's \<^verbatim>\<open>usage_last_6m\<close> is a list of exactly 6 elements
  and the row's \<^verbatim>\<open>avg_usage_last_3m\<close> is the arithmetic mean of the last 3 of them.
\<close>

theorem gerar_features_uso_recente_series:
  assumes wf: "wf_df (buffer self w)"
      and ch: "getitem (buffer self w) ''Churn'' = Inr churn"
  shows "\<exists>w' usage avg. gerar_features_uso_recente self w = (Inr self, w') \<and>
           getitem (buffer self w') ''usage_last_6m'' = Inr (map ListV usage) \<and>
           getitem (buffer self w') ''avg_usage_last_3m'' = Inr avg \<and>
           length usage = index_len (buffer self w) \<and>
           length avg = index_len (buffer self w) \<and>
           index_len (buffer self w') = index_len (buffer self w) \<and>
           (\<forall>i<index_len (buffer self w).
              length (usage ! i) = 6 \<and>
              avg ! i = FloatV (real_of_int (usage ! i ! 3 + usage ! i ! 4 + usage ! i ! 5) / 3))"
proof -
  obtain d' g' usage where
        b: "gerar_features_uso_recente_body (buffer self w) (gen w) = (Inr (), d', g')"
    and u: "getitem d' ''usage_last_6m'' = Inr (map ListV usage)"
    and lu: "length usage = index_len (buffer self w)"
    and six: "\<forall>x\<in>set usage. length x = 6"
    and a: "getitem d' ''avg_usage_last_3m''
              = Inr (map (\<lambda>x. np_mean (drop (length x - 3) x)) usage)"
    using uso_body_ok[OF wf ch] by blast
  let ?w' = "w\<lparr>frames := (frames w)(get_df self w := d'), gen := g'\<rparr>"
  let ?avg = "map (\<lambda>x. np_mean (drop (length x - 3) x)) usage"
  have 1: "gerar_features_uso_recente self w = (Inr self, ?w')"
    unfolding gerar_features_uso_recente_def
    by (rule try_return_self_ok[of gerar_features_uso_recente_body, OF b])
  have 2: "buffer self ?w' = d'" by (simp add: buffer_after)
  have 3: "index_len d' = index_len (buffer self w)"
    using uso_body_wf[OF wf b] by simp
  have 4: "\<forall>i<index_len (buffer self w).
              length (usage ! i) = 6 \<and>
              ?avg ! i = FloatV (real_of_int (usage ! i ! 3 + usage ! i ! 4 + usage ! i ! 5) / 3)"
  proof (intro allI impI)
    fix i assume "i < index_len (buffer self w)"
    with lu have i: "i < length usage" by simp
    with six have l: "length (usage ! i) = 6" by simp
    show "length (usage ! i) = 6 \<and>
          ?avg ! i = FloatV (real_of_int (usage ! i ! 3 + usage ! i ! 4 + usage ! i ! 5) / 3)"
      using l i mean_last_three[OF l] by simp
  qed
  have 5: "length ?avg = index_len (buffer self w)" using lu by simp
  have u': "getitem (buffer self ?w') ''usage_last_6m'' = Inr (map ListV usage)"
    using u by (simp only: 2)
  have a': "getitem (buffer self ?w') ''avg_usage_last_3m'' = Inr ?avg"
    using a by (simp only: 2)
  have il: "index_len (buffer self ?w') = index_len (buffer self w)"
    using 3 by (simp only: 2)
  from 1 u' a' lu 5 il 4 show ?thesis by blast
qed

theorem gerar_features_uso_recente_series_witness:
  "wf_df (buffer 0 numerico_mundo) \<and>
   getitem (buffer 0 numerico_mundo) ''Churn'' = Inr [IntV 1, IntV 0] \<and>
   (\<exists>w' usage avg. gerar_features_uso_recente 0 numerico_mundo = (Inr 0, w') \<and>
      getitem (buffer 0 w') ''usage_last_6m'' = Inr (map ListV usage) \<and>
      getitem (buffer 0 w') ''avg_usage_last_3m'' = Inr avg \<and>
      length (usage ! 1) = 6 \<and>
      avg ! 1 = FloatV (real_of_int (usage ! 1 ! 3 + usage ! 1 ! 4 + usage ! 1 ! 5) / 3))"
proof -
  have n: "index_len (buffer 0 numerico_mundo) = 2"
    by (simp add: buffer_def get_df_def numerico_mundo_def numerico_df_def)
  obtain w' usage avg where 1: "gerar_features_uso_recente 0 numerico_mundo = (Inr 0, w')"
    and 2: "getitem (buffer 0 w') ''usage_last_6m'' = Inr (map ListV usage)"
    and 3: "getitem (buffer 0 w') ''avg_usage_last_3m'' = Inr avg"
    and 4: "\<forall>i<index_len (buffer 0 numerico_mundo).
              length (usage ! i) = 6 \<and>
              avg ! i = FloatV (real_of_int (usage ! i ! 3 + usage ! i ! 4 + usage ! i ! 5) / 3)"
    using gerar_features_uso_recente_series[OF wf_numerico churn_numerico] by blast
  from 4 n have "length (usage ! 1) = 6 \<and>
      avg ! 1 = FloatV (real_of_int (usage ! 1 ! 3 + usage ! 1 ! 4 + usage ! 1 ! 5) / 3)"
    by simp
  with 1 2 3 wf_numerico churn_numerico show ?thesis by blast
qed

text \<open>
  C5. \<^verbatim>\<open>preparar_coluna_churn\<close> is not idempotent: on a buffer whose \<^verbatim>\<open>Churn\<close>
  column holds only "Yes" and "No", a second application succeeds as well and turns every
  0 and 1 of the first into the missing value, so that a buffer with at least one row is
  changed by it.
\<close>

theorem preparar_coluna_churn_twice:
  assumes wf: "wf_df (buffer self w)"
      and ch: "getitem (buffer self w) ''Churn'' = Inr churn"
      and yn: "set churn \<subseteq> {StrV ''Yes'', StrV ''No''}"
  shows "\<exists>w1 w2 once. preparar_coluna_churn self w = (Inr self, w1) \<and>
           preparar_coluna_churn self w1 = (Inr self, w2) \<and>
           getitem (buffer self w1) ''Churn'' = Inr once \<and>
           set once \<subseteq> {IntV 0, IntV 1} \<and>
           getitem (buffer self w2) ''Churn'' = Inr (replicate (length churn) NaN) \<and>
           (churn \<noteq> [] \<longrightarrow> buffer self w2 \<noteq> buffer self w1)"
proof -
  let ?once = "map (\<lambda>v. if v = StrV ''Yes'' then IntV 1 else IntV 0) churn"
  obtain w1 where 1: "preparar_coluna_churn self w = (Inr self, w1)"
    and g1: "getitem (buffer self w1) ''Churn'' = Inr ?once"
    and wf1: "wf_df (buffer self w1)"
    using preparar_step[OF wf ch series_map_yes_no[OF yn]] by blast
  have num: "set ?once \<subseteq> {IntV 0, IntV 1}" by auto
  obtain w2 where 2: "preparar_coluna_churn self w1 = (Inr self, w2)"
    and g2: "getitem (buffer self w2) ''Churn'' = Inr (replicate (length ?once) NaN)"
    using preparar_step[OF wf1 g1 series_map_numeric[OF num]] by blast
  have ne: "churn \<noteq> [] \<longrightarrow> buffer self w2 \<noteq> buffer self w1"
  proof
    assume "churn \<noteq> []"
    then obtain v vs where c: "churn = v # vs" by (cases churn) auto
    have "?once \<noteq> replicate (length ?once) NaN"
      by (simp add: c)
    with g1 g2 show "buffer self w2 \<noteq> buffer self w1" by auto
  qed
  from 1 2 g1 g2 num ne show ?thesis by auto
qed

theorem preparar_coluna_churn_twice_witness:
  "wf_df (buffer 0 exemplo_mundo) \<and>
   getitem (buffer 0 exemplo_mundo) ''Churn'' = Inr [StrV ''Yes'', StrV ''No''] \<and>
   set [StrV ''Yes'', StrV ''No''] \<subseteq> {StrV ''Yes'', StrV ''No''} \<and>
   (\<exists>w1 w2. preparar_coluna_churn 0 exemplo_mundo = (Inr 0, w1) \<and>
         preparar_coluna_churn 0 w1 = (Inr 0, w2) \<and>
         getitem (buffer 0 w2) ''Churn'' = Inr [NaN, NaN] \<and>
         buffer 0 w2 \<noteq> buffer 0 w1)"
  using preparar_coluna_churn_twice[OF wf_exemplo churn_exemplo] wf_exemplo churn_exemplo
  by (auto simp: numeral_2_eq_2)

text \<open>
  C6. From any world (the buffer and the state of the generator are part of it),
  \<^verbatim>\<open>aplicar_enriquecimento_padrao\<close> gives the result and the world of the three steps
  called one after the other in the order \<^verbatim>\<open>preparar_coluna_churn\<close>,
  \<^verbatim>\<open>gerar_features_interacao\<close>, \<^verbatim>\<open>gerar_features_uso_recente\<close>; when it returns, it
  returns the pipeline object it was called on.
\<close>

theorem aplicar_enriquecimento_padrao_sequencial:
  "aplicar_enriquecimento_padrao self w = passos_em_sequencia self w \<and>
   (\<forall>obj w'. aplicar_enriquecimento_padrao self w = (Inr obj, w') \<longrightarrow> obj = self)"
proof
  show "aplicar_enriquecimento_padrao self w = passos_em_sequencia self w"
  proof (cases "preparar_coluna_churn self w")
    case p: (Pair r1 w1)
    show ?thesis
    proof (cases "gerar_features_interacao self w1")
      case i: (Pair r2 w2)
      show ?thesis
      proof (cases "gerar_features_uso_recente self w2")
        case u: (Pair r3 w3)
        have "\<And>obj. r3 = Inr obj \<Longrightarrow> obj = self"
          using u try_return_self_result[of gerar_features_uso_recente_body self w2 _ w3]
          by (simp add: gerar_features_uso_recente_def)
        then show ?thesis
          by (auto simp: aplicar_unfold passos_em_sequencia_def p i u split: sum.splits)
      qed
    qed
  qed
next
  show "\<forall>obj w'. aplicar_enriquecimento_padrao self w = (Inr obj, w') \<longrightarrow> obj = self"
    by (auto simp: aplicar_unfold split: prod.splits sum.splits)
qed

theorem aplicar_enriquecimento_padrao_sequencial_witness:
  "\<exists>obj w'. aplicar_enriquecimento_padrao 0 exemplo_mundo = (Inr obj, w') \<and>
      passos_em_sequencia 0 exemplo_mundo = (Inr obj, w') \<and> obj = 0"
proof -
  have "\<not> list_ex is_list [StrV ''Yes'', StrV ''No'']" by simp
  then obtain w' where a: "aplicar_enriquecimento_padrao 0 exemplo_mundo = (Inr 0, w')"
    using aplicar_ok[OF wf_exemplo churn_exemplo] by blast
  from aplicar_enriquecimento_padrao_sequencial[of 0 exemplo_mundo]
  have s: "passos_em_sequencia 0 exemplo_mundo = aplicar_enriquecimento_padrao 0 exemplo_mundo"
    and r: "\<forall>obj w'. aplicar_enriquecimento_padrao 0 exemplo_mundo = (Inr obj, w') \<longrightarrow> obj = 0"
    by simp_all
  from a s have "passos_em_sequencia 0 exemplo_mundo = (Inr 0, w')" by simp
  with a r show ?thesis by blast
qed

text \<open>
  C7. Each enrichment step (the three methods and \<^verbatim>\<open>aplicar_enriquecimento_padrao\<close>),
  whether it returns or raises, leaves the buffer with the row count it had, and every
  column of the buffer, old or new, has that many cells.
\<close>

theorem enrichment_keeps_row_count:
  assumes "wf_df (buffer self w)"
  shows "wf_df (buffer self (snd (passo_run p self w))) \<and>
         index_len (buffer self (snd (passo_run p self w))) = index_len (buffer self w)"
  using assms by (rule passo_run_wf)

theorem enrichment_keeps_row_count_witness:
  "wf_df (buffer 0 exemplo_mundo) \<and>
   wf_df (buffer 0 (snd (aplicar_enriquecimento_padrao 0 exemplo_mundo))) \<and>
   index_len (buffer 0 (snd (aplicar_enriquecimento_padrao 0 exemplo_mundo))) = 2"
proof -
  have "index_len (buffer 0 exemplo_mundo) = 2"
    by (simp add: buffer_def get_df_def exemplo_mundo_def exemplo_df_def)
  with enrichment_keeps_row_count[OF wf_exemplo, of Padrao] wf_exemplo show ?thesis by simp
qed

text \<open>
  C8, as stated: \<^verbatim>\<open>salvar\<close> on a \<^verbatim>\<open>.xlsx\<close> path raises the unsupported-format error.
  \<^verbatim>\<open>os.makedirs\<close> runs first and outside the \<^verbatim>\<open>try\<close>: on \<^verbatim>\<open>blocker/out.xlsx\<close>, where
  the parent cannot be created, its exception leaves \<^verbatim>\<open>salvar\<close> and the extension is
  never looked up.
\<close>

theorem salvar_xlsx_makedirs_counterexample:
  "lower (snd (splitext ''blocker/out.xlsx'')) = ''.xlsx'' \<and>
   fst (salvar bloqueado_sistema 0 ''blocker/out.xlsx'' exemplo_mundo)
     = Inl (OSError ''File exists'')"
  by (simp add: ext_out dir_blocker estrategias_salvamento_def salvar_def
      bloqueado_sistema_def exemplo_sistema_def)

text \<open>
  C8, amended. On a path whose lower-cased extension is \<^verbatim>\<open>.xlsx\<close>: when pandas reads
  the sheet, \<^verbatim>\<open>from_file\<close> succeeds (its only I/O is the call of the Excel reader) and
  the new pipeline's buffer is the table read, with its row count. \<^verbatim>\<open>salvar\<close> always
  raises and never calls a writer: when the path has a parent directory and
  \<^verbatim>\<open>os.makedirs\<close> fails on it, the exception of \<^verbatim>\<open>os.makedirs\<close> leaves as it is;
  otherwise the exception is the \<^verbatim>\<open>ValueError\<close> of a missing write strategy.
\<close>

theorem xlsx_read_only:
  assumes "lower (snd (splitext p)) = ''.xlsx''"
  shows "(\<forall>d. read_excel s p = Inr d \<longrightarrow>
            (\<exists>self w'. from_file s p w = (Inr self, w') \<and> buffer self w' = d \<and>
                index_len (buffer self w') = index_len d \<and> io w' = io w @ [ReadExcel p])) \<and>
         (\<exists>e. fst (salvar s obj p w) = Inl e) \<and>
         io (snd (salvar s obj p w))
           = io w @ (if dirname p = [] then [] else [MakeDirs (dirname p)]) \<and>
         (dirname p = [] \<or> makedirs s (dirname p) = None \<longrightarrow>
            fst (salvar s obj p w) =
              Inl (ValueError (''Formato de arquivo para salvamento ''
                                 @ quoted (snd (splitext p)) @ '' nao e suportado.''))) \<and>
         (\<forall>e. dirname p \<noteq> [] \<and> makedirs s (dirname p) = Some e \<longrightarrow>
            fst (salvar s obj p w) = Inl e)"
proof (intro conjI allI impI)
  fix d assume rd: "read_excel s p = Inr d"
  have st: "estrategia_leitura ''.xlsx'' = Some LeitorXLSXStrategy"
    by (simp add: estrategia_leitura_def)
  obtain r w2 where l: "ler s LeitorXLSXStrategy p w = (Inr r, w2)" and f: "frames w2 r = d"
    and e2: "io w2 = io w @ [ReadExcel p]"
    by (simp add: ler_def rd alloc_frame_def)
  obtain self w3 where i: "init (DataFrameObj r) w2 = (Inr self, w3)"
    and b: "buffer self w3 = frames w2 r" and e3: "io w3 = io w2"
    by (simp add: init_def alloc_frame_def alloc_obj_def buffer_def get_df_def)
  have "from_file s p w = (Inr self, w3)"
    by (simp add: from_file_def assms st l i)
  moreover have "buffer self w3 = d" using b f by simp
  moreover have "io w3 = io w @ [ReadExcel p]" using e2 e3 by simp
  ultimately show "\<exists>self w'. from_file s p w = (Inr self, w') \<and> buffer self w' = d \<and>
                index_len (buffer self w') = index_len d \<and> io w' = io w @ [ReadExcel p]"
    by blast
next
  have nw: "estrategias_salvamento ''.xlsx'' = None"
    by (simp add: estrategias_salvamento_def)
  show "\<exists>e. fst (salvar s obj p w) = Inl e"
    using assms nw by (auto simp: salvar_def Let_def split: option.splits)
  show "io (snd (salvar s obj p w))
          = io w @ (if dirname p = [] then [] else [MakeDirs (dirname p)])"
    using assms nw by (auto simp: salvar_def Let_def split: option.splits)
  {
    assume "dirname p = [] \<or> makedirs s (dirname p) = None"
    then show "fst (salvar s obj p w) =
                Inl (ValueError (''Formato de arquivo para salvamento ''
                                   @ quoted (snd (splitext p)) @ '' nao e suportado.''))"
      using assms nw by (auto simp: salvar_def Let_def)
  }
  {
    fix e assume "dirname p \<noteq> [] \<and> makedirs s (dirname p) = Some e"
    then show "fst (salvar s obj p w) = Inl e"
      by (simp add: salvar_def Let_def)
  }
qed

theorem xlsx_read_only_witness:
  "lower (snd (splitext ''dados/clientes.XLSX'')) = ''.xlsx'' \<and>
   read_excel exemplo_sistema ''dados/clientes.XLSX'' = Inr exemplo_df \<and>
   makedirs exemplo_sistema (dirname ''dados/clientes.XLSX'') = None \<and>
   (\<exists>self w'. from_file exemplo_sistema ''dados/clientes.XLSX'' exemplo_mundo = (Inr self, w') \<and>
       index_len (buffer self w') = 2) \<and>
   fst (salvar exemplo_sistema 0 ''dados/clientes.XLSX'' exemplo_mundo) =
     Inl (ValueError (''Formato de arquivo para salvamento '' @ quoted ''.XLSX''
                        @ '' nao e suportado.'')) \<and>
   lower (snd (splitext ''blocker/out.xlsx'')) = ''.xlsx'' \<and>
   dirname ''blocker/out.xlsx'' \<noteq> [] \<and>
   makedirs bloqueado_sistema (dirname ''blocker/out.xlsx'') = Some (OSError ''File exists'') \<and>
   fst (salvar bloqueado_sistema 0 ''blocker/out.xlsx'' exemplo_mundo)
     = Inl (OSError ''File exists'')"
proof -
  have x: "lower (snd (splitext ''dados/clientes.XLSX'')) = ''.xlsx''"
    by (simp only: ext_xlsx lower_xlsx)
  have r: "read_excel exemplo_sistema ''dados/clientes.XLSX'' = Inr exemplo_df"
    by (simp add: exemplo_sistema_def)
  have m: "makedirs exemplo_sistema (dirname ''dados/clientes.XLSX'') = None"
    by (simp add: exemplo_sistema_def)
  have n: "index_len exemplo_df = 2" by (simp add: exemplo_df_def)
  have a: "(\<exists>self w'. from_file exemplo_sistema ''dados/clientes.XLSX'' exemplo_mundo
                = (Inr self, w') \<and> index_len (buffer self w') = 2) \<and>
           fst (salvar exemplo_sistema 0 ''dados/clientes.XLSX'' exemplo_mundo) =
             Inl (ValueError (''Formato de arquivo para salvamento '' @ quoted ''.XLSX''
                                @ '' nao e suportado.''))"
    using xlsx_read_only[OF x, of exemplo_sistema exemplo_mundo 0] r m n x
    by (auto simp: ext_xlsx)
  have d: "dirname ''blocker/out.xlsx'' \<noteq> []"
    by (simp add: dir_blocker)
  have k: "makedirs bloqueado_sistema (dirname ''blocker/out.xlsx'')
             = Some (OSError ''File exists'')"
    by (simp add: bloqueado_sistema_def)
  have b: "fst (salvar bloqueado_sistema 0 ''blocker/out.xlsx'' exemplo_mundo)
             = Inl (OSError ''File exists'')"
    using xlsx_read_only[OF ext_out, of bloqueado_sistema exemplo_mundo 0] d k by blast
  from x r m a ext_out d k b show ?thesis by blast
qed

text \<open>
  C9. The constructor stores a copy: the new pipeline object's buffer is another
  DataFrame object with the caller's content, and no sequence of enrichment calls on the
  pipeline object changes the caller's DataFrame object.
\<close>

theorem constructor_copies_buffer:
  assumes "a < next_frame w"
  shows "\<exists>self w1. init (DataFrameObj a) w = (Inr self, w1) \<and>
           buffer self w1 = frames w a \<and> get_df self w1 \<noteq> a \<and>
           (\<forall>ps. frames (passos_run ps self w1) a = frames w a)"
proof -
  let ?w1 = "w\<lparr>frames := (frames w)(next_frame w := frames w a),
               next_frame := next_frame w + 1,
               pipelines := (pipelines w)(next_obj w := next_frame w),
               next_obj := next_obj w + 1\<rparr>"
  have 1: "init (DataFrameObj a) w = (Inr (next_obj w), ?w1)"
    by (simp add: init_def alloc_frame_def alloc_obj_def)
  have 2: "buffer (next_obj w) ?w1 = frames w a"
    by (simp add: buffer_def get_df_def)
  have 3: "get_df (next_obj w) ?w1 \<noteq> a"
    using assms by (simp add: get_df_def)
  have 4: "frames ?w1 a = frames w a"
    using assms by simp
  have 5: "\<forall>ps. frames (passos_run ps (next_obj w) ?w1) a = frames w a"
    using passos_run_frame[OF 3] 4 by simp
  from 1 2 3 5 show ?thesis by blast
qed

theorem constructor_copies_buffer_witness:
  "0 < next_frame exemplo_mundo \<and>
   (\<exists>self w1. init (DataFrameObj 0) exemplo_mundo = (Inr self, w1) \<and>
      buffer self w1 = exemplo_df \<and>
      frames (passos_run [Padrao, Preparar] self w1) 0 = exemplo_df)"
proof -
  have n: "0 < next_frame exemplo_mundo" by (simp add: exemplo_mundo_def)
  have f: "frames exemplo_mundo 0 = exemplo_df" by (simp add: exemplo_mundo_def)
  obtain self w1 where 1: "init (DataFrameObj 0) exemplo_mundo = (Inr self, w1)"
    and 2: "buffer self w1 = frames exemplo_mundo 0"
    and 3: "\<forall>ps. frames (passos_run ps self w1) 0 = frames exemplo_mundo 0"
    using constructor_copies_buffer[OF n] by blast
  from 3 have "frames (passos_run [Padrao, Preparar] self w1) 0 = frames exemplo_mundo 0"
    by (rule spec)
  with 1 2 n f show ?thesis by (metis)
qed

text \<open>
  C10, as stated: \<^verbatim>\<open>preparar_coluna_churn\<close> does not raise whatever the \<^verbatim>\<open>Churn\<close>
  column holds. It does when a cell is a list: the lookup cannot hash it.
\<close>

theorem preparar_coluna_churn_list_counterexample:
  "getitem (buffer 0 lista_mundo) ''Churn'' = Inr [ListV [1, 0]] \<and>
   fst (preparar_coluna_churn 0 lista_mundo)
     = Inl (CustomException (TypeError ''unhashable type: list''))"
  by (simp add: preparar_coluna_churn_def try_return_self_def preparar_coluna_churn_body_def
      getitem_def series_map_def buffer_def get_df_def lista_mundo_def lista_df_def)

text \<open>
  C10, amended. For every buffer whose \<^verbatim>\<open>Churn\<close> column exists and holds no list,
  \<^verbatim>\<open>preparar_coluna_churn\<close> does not raise and returns the pipeline object; every cell
  that is neither "Yes" nor "No" (a number, another text, a missing value) becomes the
  missing value.
\<close>

theorem preparar_coluna_churn_scalars:
  assumes wf: "wf_df (buffer self w)"
      and ch: "getitem (buffer self w) ''Churn'' = Inr churn"
      and sc: "\<not> list_ex is_list churn"
  shows "\<exists>w' new. preparar_coluna_churn self w = (Inr self, w') \<and>
           getitem (buffer self w') ''Churn'' = Inr new \<and>
           length new = length churn \<and>
           (\<forall>i<length churn.
              churn ! i \<noteq> StrV ''Yes'' \<and> churn ! i \<noteq> StrV ''No'' \<longrightarrow> new ! i = NaN)"
proof -
  obtain new where sm: "series_map yes_no churn = Inr new"
    and len: "length new = length churn"
    and nan: "\<forall>i<length churn.
                churn ! i \<noteq> StrV ''Yes'' \<and> churn ! i \<noteq> StrV ''No'' \<longrightarrow> new ! i = NaN"
    using series_map_scalars[OF sc] by blast
  obtain w' where "preparar_coluna_churn self w = (Inr self, w')"
    and "getitem (buffer self w') ''Churn'' = Inr new"
    using preparar_step[OF wf ch sm] by blast
  with len nan show ?thesis by blast
qed

theorem preparar_coluna_churn_scalars_witness:
  "wf_df (buffer 0 misto_mundo) \<and>
   getitem (buffer 0 misto_mundo) ''Churn'' = Inr [StrV ''Yes'', IntV 1, StrV ''maybe''] \<and>
   \<not> list_ex is_list [StrV ''Yes'', IntV 1, StrV ''maybe''] \<and>
   (\<exists>w' new. preparar_coluna_churn 0 misto_mundo = (Inr 0, w') \<and>
         getitem (buffer 0 w') ''Churn'' = Inr new \<and> new ! 1 = NaN \<and> new ! 2 = NaN)"
proof -
  have sc: "\<not> list_ex is_list [StrV ''Yes'', IntV 1, StrV ''maybe'']" by simp
  obtain w' new where 1: "preparar_coluna_churn 0 misto_mundo = (Inr 0, w')"
    and 2: "getitem (buffer 0 w') ''Churn'' = Inr new"
    and 3: "\<forall>i<length [StrV ''Yes'', IntV 1, StrV ''maybe''].
              [StrV ''Yes'', IntV 1, StrV ''maybe''] ! i \<noteq> StrV ''Yes'' \<and>
              [StrV ''Yes'', IntV 1, StrV ''maybe''] ! i \<noteq> StrV ''No'' \<longrightarrow> new ! i = NaN"
    using preparar_coluna_churn_scalars[OF wf_misto churn_misto sc] by blast
  from 3 have "new ! 1 = NaN" "new ! 2 = NaN" by (auto simp: numeral_2_eq_2)
  with 1 2 wf_misto churn_misto sc show ?thesis by blast
qed

end
